theory Spec2Isabelle
  imports Main "HOL-Library.Char_ord" "HOL-Library.List_Lexorder"
begin

section \<open>JavaScript values\<close>

text \<open>
  Schemas, value trees, error trees and component props are plain JavaScript data. A
  value is a primitive, an array, an object (its own properties, as an association list
  in insertion order, looked up by first match) or a function. A function is known by a
  name and the values it closes over; the components and listeners that come from outside
  are functions with no captured values. Numbers are the integers (no NaN, no fractions),
  strings are byte strings, and inherited properties (\<open>toString\<close>, \<open>constructor\<close>)
  are not part of the data.
\<close>

datatype jsval =
    Undefined
  | Null
  | Bool bool
  | Num int
  | Str string
  | Arr "jsval list"
  | Obj "(string \<times> jsval) list"
  | Fun string "jsval list"

datatype js_error =
    InvariantViolation string
  | TypeError

definition nullish :: "jsval \<Rightarrow> bool" where
  "nullish v = (v = Undefined \<or> v = Null)"

fun truthy :: "jsval \<Rightarrow> bool" where
  "truthy Undefined = False"
| "truthy Null = False"
| "truthy (Bool b) = b"
| "truthy (Num n) = (n \<noteq> 0)"
| "truthy (Str s) = (s \<noteq> [])"
| "truthy (Arr xs) = True"
| "truthy (Obj kvs) = True"
| "truthy (Fun f env) = True"

text \<open>The operators \<open>a && b\<close> and \<open>a || b\<close>.\<close>

definition js_and :: "jsval \<Rightarrow> jsval \<Rightarrow> jsval" where
  "js_and a b = (if truthy a then b else a)"

definition js_or :: "jsval \<Rightarrow> jsval \<Rightarrow> jsval" where
  "js_or a b = (if truthy a then a else b)"

subsection \<open>Decimal numerals and array indices\<close>

definition digit_char :: "nat \<Rightarrow> char" where
  "digit_char d = char_of (48 + d)"

fun show_nat :: "nat \<Rightarrow> string" where
  "show_nat n = (if n < 10 then [digit_char n] else show_nat (n div 10) @ [digit_char (n mod 10)])"

definition show_int :: "int \<Rightarrow> string" where
  "show_int i = (if i < 0 then CHR ''-'' # show_nat (nat (- i)) else show_nat (nat i))"

definition is_digit :: "char \<Rightarrow> bool" where
  "is_digit c = (48 \<le> (of_char c :: nat) \<and> (of_char c :: nat) \<le> 57)"

definition read_nat :: "string \<Rightarrow> nat" where
  "read_nat s = foldl (\<lambda>acc c. 10 * acc + ((of_char c :: nat) - 48)) 0 s"

text \<open>A property name is an array index when it is a canonical decimal numeral.\<close>

definition is_index :: "string \<Rightarrow> bool" where
  "is_index k = (k \<noteq> [] \<and> list_all is_digit k \<and> (k = ''0'' \<or> hd k \<noteq> CHR ''0''))"

definition indexed :: "jsval list \<Rightarrow> (string \<times> jsval) list" where
  "indexed xs = zip (map show_nat [0..<length xs]) xs"

subsection \<open>Property access\<close>

text \<open>
  \<open>js_prop v k\<close> is \<open>v[k]\<close> for a value that is neither \<open>null\<close> nor \<open>undefined\<close>:
  an own property of an object, an element or the length of an array, a character or the
  length of a string, and \<open>undefined\<close> for everything that is not there.
  \<open>js_member\<close> is the same access where the source does not guard it: on \<open>null\<close> and
  \<open>undefined\<close> it throws a TypeError.
\<close>

fun js_prop :: "jsval \<Rightarrow> string \<Rightarrow> jsval" where
  "js_prop (Obj kvs) k = (case map_of kvs k of Some v \<Rightarrow> v | None \<Rightarrow> Undefined)"
| "js_prop (Arr xs) k =
     (if is_index k \<and> read_nat k < length xs then xs ! read_nat k
      else if k = ''length'' then Num (int (length xs))
      else Undefined)"
| "js_prop (Str s) k =
     (if is_index k \<and> read_nat k < length s then Str [s ! read_nat k]
      else if k = ''length'' then Num (int (length s))
      else Undefined)"
| "js_prop v k = Undefined"

definition js_member :: "jsval \<Rightarrow> string \<Rightarrow> js_error + jsval" where
  "js_member v k = (if nullish v then Inl TypeError else Inr (js_prop v k))"

text \<open>
  The own enumerable properties of a value, as object spread, \<open>Object.assign\<close> and
  \<open>_.keys\<close> enumerate them. A repeated key of the association list is shadowed by its
  first occurrence, as in the lookup.
\<close>

fun dedup :: "(string \<times> 'a) list \<Rightarrow> (string \<times> 'a) list" where
  "dedup [] = []"
| "dedup (p # ps) = p # dedup (filter (\<lambda>q. fst q \<noteq> fst p) ps)"

fun own_props :: "jsval \<Rightarrow> (string \<times> jsval) list" where
  "own_props (Obj kvs) = dedup kvs"
| "own_props (Arr xs) = indexed xs"
| "own_props (Str s) = indexed (map (\<lambda>c. Str [c]) s)"
| "own_props v = []"

text \<open>Assignment \<open>o[k] = v\<close> on the properties of an object: in place, or appended.\<close>

fun obj_put :: "string \<Rightarrow> jsval \<Rightarrow> (string \<times> jsval) list \<Rightarrow> (string \<times> jsval) list" where
  "obj_put k v [] = [(k, v)]"
| "obj_put k v (p # ps) = (if fst p = k then (k, v) # ps else p # obj_put k v ps)"

text \<open>Object spread \<open>{...kvs, ...src}\<close>: the properties of \<open>src\<close> are assigned in order.\<close>

definition spread :: "(string \<times> jsval) list \<Rightarrow> jsval \<Rightarrow> (string \<times> jsval) list" where
  "spread kvs src = fold (\<lambda>(k, v) acc. obj_put k v acc) (own_props src) kvs"

subsection \<open>Conversion to strings and property keys\<close>

definition join_comma :: "string list \<Rightarrow> string" where
  "join_comma ss = (case ss of [] \<Rightarrow> [] | s # rest \<Rightarrow> foldl (\<lambda>acc t. acc @ '','' @ t) s rest)"

text \<open>
  \<open>String(v)\<close>, as template literals and computed property keys apply it. The source
  text of a function is represented by its name.
\<close>

fun js_to_string :: "jsval \<Rightarrow> string" where
  "js_to_string Undefined = ''undefined''"
| "js_to_string Null = ''null''"
| "js_to_string (Bool b) = (if b then ''true'' else ''false'')"
| "js_to_string (Num n) = show_int n"
| "js_to_string (Str s) = s"
| "js_to_string (Arr xs) =
     join_comma (map (\<lambda>x. if x = Undefined \<or> x = Null then [] else js_to_string x) xs)"
| "js_to_string (Obj kvs) = ''[object Object]''"
| "js_to_string (Fun f env) = f"

section \<open>The lodash functions the code calls\<close>

text \<open>
  \<open>_.get(object, path)\<close> for a path that is an array of keys: \<open>baseGet\<close> walks the
  keys while the current value is neither \<open>null\<close> nor \<open>undefined\<close>, and returns the value
  reached only when every key was consumed and there was at least one key.
\<close>

fun baseGet_walk :: "jsval \<Rightarrow> string list \<Rightarrow> jsval option" where
  "baseGet_walk obj [] = Some obj"
| "baseGet_walk obj (k # ks) = (if nullish obj then None else baseGet_walk (js_prop obj k) ks)"

definition baseGet :: "jsval \<Rightarrow> string list \<Rightarrow> jsval" where
  "baseGet obj path =
     (if path = [] then Undefined
      else case baseGet_walk obj path of Some v \<Rightarrow> v | None \<Rightarrow> Undefined)"

definition lodash_get :: "jsval \<Rightarrow> string list \<Rightarrow> jsval" where
  "lodash_get obj path = (if nullish obj then Undefined else baseGet obj path)"

text \<open>\<open>_.keys\<close>, \<open>_.sortBy\<close> with the identity (strings compare by code unit, ascending),
  \<open>_.isEmpty\<close> and \<open>_.pickBy(o, v => v)\<close>.\<close>

definition lodash_keys :: "jsval \<Rightarrow> string list" where
  "lodash_keys v = map fst (own_props v)"

definition lodash_sortBy :: "string list \<Rightarrow> string list" where
  "lodash_sortBy ks = sort ks"

fun lodash_isEmpty :: "jsval \<Rightarrow> bool" where
  "lodash_isEmpty (Str s) = (s = [])"
| "lodash_isEmpty (Arr xs) = (xs = [])"
| "lodash_isEmpty (Obj kvs) = (kvs = [])"
| "lodash_isEmpty v = True"

definition lodash_pickBy_truthy :: "jsval \<Rightarrow> (string \<times> jsval) list" where
  "lodash_pickBy_truthy v = filter (\<lambda>p. truthy (snd p)) (own_props v)"

text \<open>\<open>String.prototype.split\<close> with the separator \<open>'.'\<close>.\<close>

fun split_dot :: "string \<Rightarrow> string list" where
  "split_dot [] = [[]]"
| "split_dot (c # cs) =
     (if c = CHR ''.'' then [] # split_dot cs
      else case split_dot cs of w # ws \<Rightarrow> (c # w) # ws | [] \<Rightarrow> [[c]])"

section \<open>The Fields component\<close>

text \<open>
  The props of a \<open>Fields\<close> instance that the methods below read. A field path is given
  as a dotted string or as a sequence of keys, or not at all (the methods then address the
  whole schema). \<open>fieldsP\<close> (the prop \<open>fields\<close>) is the optional list of field names to display.
\<close>

record fields_props =
  schema :: jsval
  valueP :: jsval
  onChange :: jsval
  error :: jsval
  fieldTypes :: jsval
  fieldsP :: "string list option"
  fieldComponentProps :: jsval

datatype field_path =
    NoPath
  | PString string
  | PArray "string list"

text \<open>The object \<open>getFieldData\<close> returns. \<open>fieldPathString\<close> is a string or \<open>null\<close>;
  \<open>fieldPath\<close> is the key sequence, or absent when no path was given.\<close>

record field_data =
  fieldPath :: "string list option"
  fieldPathString :: jsval
  fieldSchema :: jsval
  fieldError :: jsval
  fieldType :: jsval
  valueD :: jsval
  onChangeD :: jsval

text \<open>The first lines of \<open>getFieldData\<close>: a string is kept as \<open>fieldPathString\<close> and
  split at the dots; anything else leaves \<open>fieldPathString\<close> at \<open>null\<close>.\<close>

definition normalize_path :: "field_path \<Rightarrow> jsval \<times> string list option" where
  "normalize_path p =
     (case p of
        PString s \<Rightarrow> (Str s, Some (split_dot s))
      | PArray ks \<Rightarrow> (Null, Some ks)
      | NoPath \<Rightarrow> (Null, None))"

text \<open>\<open>fieldPath ? _.get(x, fieldPath) : x\<close>; an array is truthy, also when empty.\<close>

definition get_at :: "jsval \<Rightarrow> string list option \<Rightarrow> jsval" where
  "get_at x path = (case path of Some ks \<Rightarrow> lodash_get x ks | None \<Rightarrow> x)"

definition path_value :: "string list option \<Rightarrow> jsval" where
  "path_value path = (case path of Some ks \<Rightarrow> Arr (map Str ks) | None \<Rightarrow> Undefined)"

definition quote1 :: string where
  "quote1 = [CHR 0x27]"

definition quote2 :: string where
  "quote2 = [CHR 0x22]"

definition not_defined_message :: "jsval \<Rightarrow> string" where
  "not_defined_message pathString =
     ''render('' @ quote1 @ js_to_string pathString @ quote1 @ '') failed because the field ''
       @ quote2 @ js_to_string pathString @ quote2 @ '' is not defined in the schema.''"

definition getFieldData :: "fields_props \<Rightarrow> field_path \<Rightarrow> js_error + field_data" where
  "getFieldData P rawPath =
     (let (pathString, path) = normalize_path rawPath;
          fSchema = get_at (schema P) path
      in if \<not> truthy fSchema then Inl (InvariantViolation (not_defined_message pathString))
         else Inr \<lparr> fieldPath = path,
                    fieldPathString = pathString,
                    fieldSchema = fSchema,
                    fieldError = get_at (error P) path,
                    fieldType = js_and (fieldTypes P)
                      (js_prop (fieldTypes P) (js_to_string (js_prop fSchema ''type''))),
                    valueD = get_at (valueP P) path,
                    onChangeD = Fun ''changeField'' [path_value path, pathString] \<rparr>)"

text \<open>\<open>getPropsForFieldData\<close>: an object literal with three spreads, later ones
  overwriting earlier keys. Reading \<open>fieldSchema.fieldComponentProps\<close> throws when
  \<open>fieldSchema\<close> is \<open>null\<close> or \<open>undefined\<close>.\<close>

definition base_props :: "field_data \<Rightarrow> (string \<times> jsval) list" where
  "base_props fd =
     [(''value'', valueD fd),
      (''onChange'', onChangeD fd),
      (''error'', fieldError fd),
      (''schema'', fieldSchema fd),
      (''required'', lodash_get (fieldSchema fd) [''rules'', ''required''])]"

definition getPropsForFieldData ::
  "fields_props \<Rightarrow> field_data \<Rightarrow> js_error + (string \<times> jsval) list" where
  "getPropsForFieldData P fd =
     (if nullish (fieldSchema fd) then Inl TypeError
      else Inr (spread
                 (spread
                   (spread (base_props fd) (fieldComponentProps P))
                   (js_prop (fieldSchema fd) ''fieldComponentProps''))
                 (js_and (fieldType fd) (js_prop (fieldType fd) ''fieldComponentProps''))))"

definition propsFor :: "fields_props \<Rightarrow> field_path \<Rightarrow> js_error + (string \<times> jsval) list" where
  "propsFor P rawPath =
     (case getFieldData P rawPath of
        Inl e \<Rightarrow> Inl e
      | Inr fd \<Rightarrow> getPropsForFieldData P fd)"

text \<open>What \<open>renderField\<close> returns: the wrapping element's key, the component chosen and
  the props it is given.\<close>

record field_node =
  node_key :: jsval
  component :: jsval
  component_props :: "(string \<times> jsval) list"

definition no_component_message :: "jsval \<Rightarrow> jsval \<Rightarrow> string" where
  "no_component_message pathString typeTag =
     ''field '' @ quote2 @ js_to_string pathString @ quote2 @ '' has a type ''
       @ quote2 @ js_to_string typeTag @ quote2 @ '' that does not have a component''"

definition renderField ::
  "fields_props \<Rightarrow> field_path \<Rightarrow> jsval \<Rightarrow> jsval \<Rightarrow> js_error + field_node" where
  "renderField P rawFieldPath fieldProps fieldComponent =
     (case getFieldData P rawFieldPath of
        Inl e \<Rightarrow> Inl e
      | Inr fd \<Rightarrow>
         (case getPropsForFieldData P fd of
            Inl e \<Rightarrow> Inl e
          | Inr props \<Rightarrow>
             (let FieldComponent =
                    js_or fieldComponent
                      (js_or (js_prop (fieldSchema fd) ''fieldComponent'')
                         (js_and (fieldType fd) (js_prop (fieldType fd) ''fieldComponent'')))
              in if \<not> truthy FieldComponent
                 then Inl (InvariantViolation
                        (no_component_message (fieldPathString fd) (js_prop (fieldSchema fd) ''type'')))
                 else Inr \<lparr> node_key = fieldPathString fd,
                            component = FieldComponent,
                            component_props = spread props fieldProps \<rparr>)))"

text \<open>\<open>renderAllFields\<close>. \<open>titleize\<close> is the external string formatter. Each item is a
  keyed element with a label and the rendered field; the first item that throws aborts
  the whole rendering.\<close>

record field_item =
  item_key :: string
  item_label :: jsval
  item_field :: field_node

definition sortedFieldNames :: "fields_props \<Rightarrow> string list" where
  "sortedFieldNames P =
     (let fieldNames = lodash_keys (schema P)
      in case fieldsP P of Some fs \<Rightarrow> fs | None \<Rightarrow> lodash_sortBy fieldNames)"

definition renderItem :: "(string \<Rightarrow> string) \<Rightarrow> fields_props \<Rightarrow> string \<Rightarrow> js_error + field_item" where
  "renderItem titleize P fieldName =
     (case js_member (schema P) fieldName of
        Inl e \<Rightarrow> Inl e
      | Inr entry \<Rightarrow>
         (case js_member entry ''title'' of
            Inl e \<Rightarrow> Inl e
          | Inr title \<Rightarrow>
             (case renderField P (PString fieldName) Undefined Undefined of
                Inl e \<Rightarrow> Inl e
              | Inr node \<Rightarrow>
                 Inr \<lparr> item_key = fieldName,
                        item_label = js_or title (Str (titleize fieldName)),
                        item_field = node \<rparr>)))"

fun map_throwing :: "('a \<Rightarrow> js_error + 'b) \<Rightarrow> 'a list \<Rightarrow> js_error + 'b list" where
  "map_throwing f [] = Inr []"
| "map_throwing f (x # xs) =
     (case f x of
        Inl e \<Rightarrow> Inl e
      | Inr y \<Rightarrow> (case map_throwing f xs of Inl e \<Rightarrow> Inl e | Inr ys \<Rightarrow> Inr (y # ys)))"

definition renderAllFields :: "(string \<Rightarrow> string) \<Rightarrow> fields_props \<Rightarrow> js_error + field_item list" where
  "renderAllFields titleize P = map_throwing (renderItem titleize P) (sortedFieldNames P)"

section \<open>renderFields and the element it creates\<close>

definition TextInput :: jsval where
  "TextInput = Fun ''TextInput'' []"

definition NumberInput :: jsval where
  "NumberInput = Fun ''NumberInput'' []"

definition default_fieldTypes :: jsval where
  "default_fieldTypes =
     Obj [(''string'', Obj [(''fieldComponent'', TextInput)]),
          (''number'', Obj [(''fieldComponent'', NumberInput)])]"

text \<open>The static \<open>defaultProps\<close> of \<open>Fields\<close>.\<close>

definition Fields_defaultProps :: "(string \<times> jsval) list" where
  "Fields_defaultProps = [(''fieldComponents'', Obj []), (''value'', Obj [])]"

text \<open>
  React's \<open>createElement\<close>: the props are the attributes given, without \<open>key\<close> and
  \<open>ref\<close>, and every default prop whose attribute is \<open>undefined\<close> takes its default.
\<close>

definition apply_default :: "string \<Rightarrow> jsval \<Rightarrow> (string \<times> jsval) list \<Rightarrow> (string \<times> jsval) list" where
  "apply_default k d props = (if js_prop (Obj props) k = Undefined then obj_put k d props else props)"

definition createElement_props ::
  "(string \<times> jsval) list \<Rightarrow> (string \<times> jsval) list \<Rightarrow> (string \<times> jsval) list" where
  "createElement_props defaults config =
     fold (\<lambda>(k, d) props. apply_default k d props)
       defaults
       (filter (\<lambda>p. fst p \<noteq> ''key'' \<and> fst p \<noteq> ''ref'') config)"

text \<open>The props a \<open>Fields\<close> instance reads, by name, from the props of its element.
  \<open>fields\<close> is an array of field names when it is given.\<close>

definition decode_fields :: "jsval \<Rightarrow> string list option" where
  "decode_fields v = (case v of Arr xs \<Rightarrow> Some (map js_to_string xs) | _ \<Rightarrow> None)"

definition Fields_props :: "(string \<times> jsval) list \<Rightarrow> fields_props" where
  "Fields_props props =
     \<lparr> schema = js_prop (Obj props) ''schema'',
       valueP = js_prop (Obj props) ''value'',
       onChange = js_prop (Obj props) ''onChange'',
       error = js_prop (Obj props) ''error'',
       fieldTypes = js_prop (Obj props) ''fieldTypes'',
       fieldsP = decode_fields (js_prop (Obj props) ''fields''),
       fieldComponentProps = js_prop (Obj props) ''fieldComponentProps'' \<rparr>"

text \<open>\<open>renderFields(schema, options, render)\<close>: the truthy options overwrite the default
  \<open>fieldTypes\<close>, and the element is \<open><Fields schema={schema} render={render} {...options}/>\<close>.\<close>

definition renderFields_element :: "jsval \<Rightarrow> jsval \<Rightarrow> jsval \<Rightarrow> (string \<times> jsval) list" where
  "renderFields_element schemaArg options renderArg =
     (let options' = spread [(''fieldTypes'', default_fieldTypes)] (Obj (lodash_pickBy_truthy options))
      in createElement_props Fields_defaultProps
           (spread [(''schema'', schemaArg), (''render'', renderArg)] (Obj options')))"

definition renderFields :: "jsval \<Rightarrow> jsval \<Rightarrow> jsval \<Rightarrow> fields_props" where
  "renderFields schemaArg options renderArg = Fields_props (renderFields_element schemaArg options renderArg)"

section \<open>The Form component\<close>

text \<open>
  The three collaborators of a form are asynchronous functions from outside: a call
  either resolves with a value or rejects with one. \<open>afterSubmit\<close> is optional.
\<close>

datatype outcome = Resolved jsval | Rejected jsval

text \<open>
  The module of \<open>Form\<close> imports React, \<open>renderFields\<close> and \<open>validate\<close>, and nothing
  else, yet \<open>submit\<close> calls \<open>_.isEmpty\<close>. The identifier \<open>_\<close> is free in the module: it
  is looked up in the global scope when the call is reached. On its own the module runs
  with \<open>_\<close> unbound, and evaluating it throws a ReferenceError; only a page that puts
  lodash into the global scope makes the call succeed.
\<close>

datatype underscore_binding = Unbound | Lodash

definition reference_error :: jsval where
  "reference_error = Obj [(''name'', Str ''ReferenceError''), (''message'', Str ''_ is not defined'')]"

record form_props =
  schemaF :: jsval
  valueF :: jsval
  renderF :: jsval
  fieldsF :: jsval
  showLabelsF :: jsval
  fieldComponentsF :: jsval
  validate :: "jsval \<Rightarrow> jsval \<Rightarrow> outcome"
  submitF :: "jsval \<Rightarrow> outcome"
  afterSubmit :: "(jsval \<Rightarrow> jsval \<Rightarrow> outcome) option"

text \<open>
  The state of a form. The form never looks into its values, it only stores them and
  hands them on, so the state is the same for values given as trees and for values given
  as references into a store.
\<close>

record 'v form_state =
  valuesS :: 'v
  errorsS :: jsval

text \<open>The constructor's state, and \<open>onChange(values, fieldName, value)\<close>.\<close>

definition initial_state :: "jsval form_state" where
  "initial_state = \<lparr> valuesS = Obj [], errorsS = Null \<rparr>"

definition Form_onChange :: "'v form_state \<Rightarrow> 'v \<Rightarrow> jsval \<Rightarrow> 'v \<Rightarrow> 'v form_state" where
  "Form_onChange st newValues fieldName fieldValue = st\<lparr> valuesS := newValues \<rparr>"

text \<open>
  One run of \<open>submit\<close>: the state it leaves, the state updates and external calls it
  made, in order, and how its promise settles. The first argument is the binding of \<open>_\<close>
  that the run finds when it reaches \<open>_.isEmpty(fieldErrors)\<close>, after the validator has
  resolved.
\<close>

datatype event =
    SetState_errors jsval
  | Call_validate jsval jsval
  | Call_submit jsval
  | Call_afterSubmit jsval jsval

record submit_run =
  final_state :: "jsval form_state"
  trace :: "event list"
  returned :: outcome

definition Form_submit :: "underscore_binding \<Rightarrow> form_props \<Rightarrow> jsval form_state \<Rightarrow> submit_run" where
  "Form_submit underscore F st =
     (let vals = valuesS st;
          st1 = st\<lparr> errorsS := Null \<rparr>;
          t1 = [SetState_errors Null, Call_validate (schemaF F) vals]
      in case validate F (schemaF F) vals of
           Rejected e \<Rightarrow> \<lparr> final_state = st1, trace = t1, returned = Rejected e \<rparr>
         | Resolved fieldErrors \<Rightarrow>
            if underscore = Unbound
            then \<lparr> final_state = st1, trace = t1, returned = Rejected reference_error \<rparr>
            else if \<not> lodash_isEmpty fieldErrors
            then \<lparr> final_state = st1\<lparr> errorsS := Obj [(''fieldErrors'', fieldErrors)] \<rparr>,
                   trace = t1 @ [SetState_errors (Obj [(''fieldErrors'', fieldErrors)])],
                   returned = Resolved Undefined \<rparr>
            else (case submitF F vals of
                    Rejected errs \<Rightarrow>
                      \<lparr> final_state = st1\<lparr> errorsS := errs \<rparr>,
                        trace = t1 @ [Call_submit vals, SetState_errors errs],
                        returned = Resolved Undefined \<rparr>
                  | Resolved res \<Rightarrow>
                     (case afterSubmit F of
                        None \<Rightarrow>
                          \<lparr> final_state = st1, trace = t1 @ [Call_submit vals],
                            returned = Resolved Undefined \<rparr>
                      | Some after \<Rightarrow>
                         (case after vals res of
                            Rejected e \<Rightarrow>
                              \<lparr> final_state = st1,
                                trace = t1 @ [Call_submit vals, Call_afterSubmit vals res],
                                returned = Rejected e \<rparr>
                          | Resolved r \<Rightarrow>
                              \<lparr> final_state = st1,
                                trace = t1 @ [Call_submit vals, Call_afterSubmit vals res],
                                returned = Resolved Undefined \<rparr>))))"

text \<open>The tests for the calls of the submitter and of \<open>afterSubmit\<close> in a trace.\<close>

fun is_submit_call :: "event \<Rightarrow> bool" where
  "is_submit_call (Call_submit vals) = True"
| "is_submit_call ev = False"


text \<open>The options \<open>render\<close> passes down to \<open>renderFields\<close>, and the props of the
  \<open>Fields\<close> instance that results.\<close>

definition Form_options :: "form_props \<Rightarrow> 'v form_state \<Rightarrow> jsval" where
  "Form_options F st =
     Obj [(''value'', valueF F),
          (''onChange'', Fun ''Form.onChange'' []),
          (''fields'', fieldsF F),
          (''showLabels'', showLabelsF F),
          (''fieldComponents'', fieldComponentsF F),
          (''errors'', js_and (errorsS st) (js_prop (errorsS st) ''fieldErrors'')),
          (''fieldsContext'',
             Obj [(''renderSubmit'', Fun ''Form.renderSubmit'' []),
                  (''submit'', Fun ''Form.submit'' [])])]"

definition Form_render_fields :: "form_props \<Rightarrow> 'v form_state \<Rightarrow> fields_props" where
  "Form_render_fields F st = renderFields (schemaF F) (Form_options F st) (renderF F)"

section \<open>Value trees in a store\<close>

text \<open>
  \<open>changeField\<close> copies an object and then assigns into it, so what it does to the value
  tree it was given depends on which objects are shared. For this method the objects live
  in a store: a value is a primitive or a reference, and the store holds, per address,
  whether the object is an array and its own properties. A new object takes the next free
  address. (The length of an array is computed from its elements; it is not a stored
  property.)
\<close>

datatype hval =
    HUndefined
  | HNull
  | HBool bool
  | HNum int
  | HStr string
  | HRef nat

type_synonym hcell = "bool \<times> (string \<times> hval) list"

type_synonym heap = "hcell list"

definition cell_at :: "heap \<Rightarrow> nat \<Rightarrow> hcell" where
  "cell_at h a = (if a < length h then h ! a else (False, []))"

definition array_length :: "(string \<times> hval) list \<Rightarrow> nat" where
  "array_length props = fold max (map (\<lambda>p. if is_index (fst p) then Suc (read_nat (fst p)) else 0) props) 0"

fun h_prop :: "heap \<Rightarrow> hval \<Rightarrow> string \<Rightarrow> hval" where
  "h_prop h (HRef a) k =
     (case map_of (snd (cell_at h a)) k of
        Some v \<Rightarrow> v
      | None \<Rightarrow>
          if fst (cell_at h a) \<and> k = ''length'' then HNum (int (array_length (snd (cell_at h a))))
          else HUndefined)"
| "h_prop h (HStr s) k =
     (if is_index k \<and> read_nat k < length s then HStr [s ! read_nat k]
      else if k = ''length'' then HNum (int (length s))
      else HUndefined)"
| "h_prop h v k = HUndefined"

fun h_own_props :: "heap \<Rightarrow> hval \<Rightarrow> (string \<times> hval) list" where
  "h_own_props h (HRef a) = dedup (snd (cell_at h a))"
| "h_own_props h (HStr s) = zip (map show_nat [0..<length s]) (map (\<lambda>c. HStr [c]) s)"
| "h_own_props h v = []"

definition h_alloc :: "heap \<Rightarrow> hcell \<Rightarrow> heap \<times> nat" where
  "h_alloc h c = (h @ [c], length h)"

fun h_put :: "string \<Rightarrow> hval \<Rightarrow> (string \<times> hval) list \<Rightarrow> (string \<times> hval) list" where
  "h_put k v [] = [(k, v)]"
| "h_put k v (p # ps) = (if fst p = k then (k, v) # ps else p # h_put k v ps)"

text \<open>The assignment \<open>o[k] = v\<close> on the object at address \<open>a\<close>.\<close>

definition h_assign :: "heap \<Rightarrow> nat \<Rightarrow> string \<Rightarrow> hval \<Rightarrow> heap" where
  "h_assign h a k v = (if a < length h then h[a := (fst (h ! a), h_put k v (snd (h ! a)))] else h)"

text \<open>\<open>Object.assign({}, src)\<close>: a new object with the own properties of \<open>src\<close>.\<close>

definition Object_assign_empty :: "heap \<Rightarrow> hval \<Rightarrow> heap \<times> hval" where
  "Object_assign_empty h src = (let (h', a) = h_alloc h (False, h_own_props h src) in (h', HRef a))"

text \<open>
  \<open>_.set(object, path, value)\<close> of lodash 4.17 for an array of keys: it walks down from
  the object, keeps every intermediate value that is an object, puts a new array or object
  where there is none, and assigns the value at the last key. Every assignment is made in
  place, on the object reached. The keys \<open>__proto__\<close>, \<open>constructor\<close> and \<open>prototype\<close>
  stop the walk.
\<close>

fun baseSet_loop :: "heap \<Rightarrow> nat \<Rightarrow> string list \<Rightarrow> hval \<Rightarrow> heap" where
  "baseSet_loop h a [] v = h"
| "baseSet_loop h a (k # ks) v =
     (if k = ''__proto__'' \<or> k = ''constructor'' \<or> k = ''prototype'' then h
      else if ks = [] then h_assign h a k v
      else (case h_prop h (HRef a) k of
              HRef b \<Rightarrow> baseSet_loop (h_assign h a k (HRef b)) b ks v
            | objValue \<Rightarrow>
                (let (h', b) = h_alloc h (is_index (hd ks), [])
                 in baseSet_loop (h_assign h' a k (HRef b)) b ks v)))"

definition lodash_set :: "heap \<Rightarrow> hval \<Rightarrow> string list \<Rightarrow> hval \<Rightarrow> heap" where
  "lodash_set h object path v = (case object of HRef a \<Rightarrow> baseSet_loop h a path v | _ \<Rightarrow> h)"

text \<open>\<open>_.get\<close> on the store, as \<open>getFieldData\<close> reads a value out of a tree.\<close>

fun h_baseGet_walk :: "heap \<Rightarrow> hval \<Rightarrow> string list \<Rightarrow> hval option" where
  "h_baseGet_walk h obj [] = Some obj"
| "h_baseGet_walk h obj (k # ks) =
     (if obj = HUndefined \<or> obj = HNull then None else h_baseGet_walk h (h_prop h obj k) ks)"

definition h_get :: "heap \<Rightarrow> hval \<Rightarrow> string list \<Rightarrow> hval" where
  "h_get h obj path =
     (if path = [] then HUndefined
      else case h_baseGet_walk h obj path of Some v \<Rightarrow> v | None \<Rightarrow> HUndefined)"

text \<open>
  \<open>changeField(fieldPath, fieldValue, fieldPathString)\<close> on an instance whose
  \<open>props.value\<close> is \<open>propsValue\<close>. The result is the store afterwards and, when the
  instance has an \<open>onChange\<close> listener, the four arguments the listener is called with,
  in their order.
\<close>

definition changeField ::
  "heap \<Rightarrow> hval \<Rightarrow> bool \<Rightarrow> string list option \<Rightarrow> hval \<Rightarrow> jsval
     \<Rightarrow> heap \<times> (hval \<times> jsval \<times> hval \<times> string list option) option" where
  "changeField h propsValue hasListener path fieldValue pathString =
     (let (h', newValue) =
            (case path of
               Some ks \<Rightarrow>
                 (let (h1, copy) = Object_assign_empty h propsValue
                  in (lodash_set h1 copy ks fieldValue, copy))
             | None \<Rightarrow> (h, fieldValue))
      in (h', if hasListener then Some (newValue, pathString, fieldValue, path) else None))"

text \<open>
  The change-callback that \<open>getFieldData\<close> puts into the FieldData,
  \<open>fieldValue => this.changeField(fieldPath, fieldValue, fieldPathString)\<close>, invoked
  with a new value.
\<close>

definition bound_onChange ::
  "heap \<Rightarrow> hval \<Rightarrow> bool \<Rightarrow> field_data \<Rightarrow> hval
     \<Rightarrow> heap \<times> (hval \<times> jsval \<times> hval \<times> string list option) option" where
  "bound_onChange h propsValue hasListener fd fieldValue =
     changeField h propsValue hasListener (fieldPath fd) fieldValue (fieldPathString fd)"

text \<open>
  One change event in a rendered form. \<open>render\<close> passes the form's own \<open>value\<close> prop
  down as the \<open>value\<close> option, so the \<open>props.value\<close> of the \<open>Fields\<close> instance is that
  very object, \<open>propsValue\<close>, and its listener is the form's \<open>onChange\<close>. The event
  invokes the change-callback of a resolved field with a new value: \<open>changeField\<close> runs
  on the store, and the form's \<open>onChange\<close> stores the tree it is called with in the
  state. The value prop is the same reference after the event.
\<close>

definition form_change ::
  "hval \<Rightarrow> heap \<times> hval form_state \<Rightarrow> field_data \<times> hval \<Rightarrow> heap \<times> hval form_state" where
  "form_change propsValue hs ev =
     (case bound_onChange (fst hs) propsValue True (fst ev) (snd ev) of
        (h', Some (newValues, fieldName, fieldValue, path)) \<Rightarrow>
          (h', Form_onChange (snd hs) newValues fieldName fieldValue)
      | (h', None) \<Rightarrow> (h', snd hs))"

section \<open>The notions the specification uses\<close>

text \<open>
  Direct nested lookup \<open>x[k1][k2]...[kn]\<close>, which throws where an intermediate value is
  \<open>null\<close> or \<open>undefined\<close>, and the same lookup with an absent location read as
  \<open>undefined\<close>.
\<close>

fun nested_lookup :: "jsval \<Rightarrow> string list \<Rightarrow> js_error + jsval" where
  "nested_lookup x [] = Inr x"
| "nested_lookup x (k # ks) = (if nullish x then Inl TypeError else nested_lookup (js_prop x k) ks)"

definition lookup_or_undefined :: "jsval \<Rightarrow> string list \<Rightarrow> jsval" where
  "lookup_or_undefined x ks = (case nested_lookup x ks of Inr v \<Rightarrow> v | Inl e \<Rightarrow> Undefined)"

text \<open>
  A Field Definition, by the shape that \<open>schemaPropType\<close> declares: an object whose
  \<open>title\<close> and \<open>type\<close> are strings, whose \<open>rules\<close> and \<open>fieldComponentProps\<close> are objects
  and whose \<open>fieldComponent\<close> is a function, each where present.
\<close>

definition absent_or :: "(jsval \<Rightarrow> bool) \<Rightarrow> jsval \<Rightarrow> bool" where
  "absent_or ok v = (nullish v \<or> ok v)"

definition is_string :: "jsval \<Rightarrow> bool" where
  "is_string v = (case v of Str s \<Rightarrow> True | _ \<Rightarrow> False)"

definition is_object :: "jsval \<Rightarrow> bool" where
  "is_object v = (case v of Obj kvs \<Rightarrow> True | _ \<Rightarrow> False)"

definition is_func :: "jsval \<Rightarrow> bool" where
  "is_func v = (case v of Fun f env \<Rightarrow> True | _ \<Rightarrow> False)"

definition is_field_definition :: "jsval \<Rightarrow> bool" where
  "is_field_definition d =
     (is_object d
      \<and> absent_or is_string (js_prop d ''title'')
      \<and> absent_or is_string (js_prop d ''type'')
      \<and> absent_or is_object (js_prop d ''rules'')
      \<and> absent_or is_func (js_prop d ''fieldComponent'')
      \<and> absent_or is_object (js_prop d ''fieldComponentProps''))"

section \<open>Example inputs\<close>

text \<open>
  A schema with one field \<open>name\<close> and a nested schema \<open>address\<close>, with component props
  at all three levels: global (\<open>value\<close>, \<open>placeholder\<close>), on the field
  (\<open>placeholder\<close>, \<open>size\<close>) and in the type registry (\<open>size\<close>).
\<close>

definition name_definition :: jsval where
  "name_definition =
     Obj [(''title'', Str ''Name''),
          (''type'', Str ''string''),
          (''rules'', Obj [(''required'', Bool True)]),
          (''fieldComponentProps'',
             Obj [(''placeholder'', Str ''field''), (''size'', Str ''field'')])]"

definition example_schema :: jsval where
  "example_schema =
     Obj [(''name'', name_definition),
          (''address'', Obj [(''city'', Obj [(''type'', Str ''string'')])])]"

definition example_props :: fields_props where
  "example_props =
     \<lparr> schema = example_schema,
       valueP = Obj [(''name'', Str ''Ann''), (''address'', Obj [(''city'', Str ''Oslo'')])],
       onChange = Fun ''listener'' [],
       error = Obj [(''name'', Str ''required'')],
       fieldTypes =
         Obj [(''string'',
                Obj [(''fieldComponent'', TextInput),
                     (''fieldComponentProps'', Obj [(''size'', Str ''type'')])])],
       fieldsP = None,
       fieldComponentProps = Obj [(''value'', Str ''global''), (''placeholder'', Str ''global'')] \<rparr>"

definition name_data :: field_data where
  "name_data =
     \<lparr> fieldPath = Some [''name''],
       fieldPathString = Str ''name'',
       fieldSchema = name_definition,
       fieldError = Str ''required'',
       fieldType =
         Obj [(''fieldComponent'', TextInput),
              (''fieldComponentProps'', Obj [(''size'', Str ''type'')])],
       valueD = Str ''Ann'',
       onChangeD = Fun ''changeField'' [Arr [Str ''name''], Str ''name''] \<rparr>"

text \<open>A schema that is itself one Field Definition, and a schema with the nested path
  \<open>a.b\<close>.\<close>

definition age_props :: fields_props where
  "age_props =
     \<lparr> schema = Obj [(''title'', Str ''Age''), (''type'', Str ''number'')],
       valueP = Num 41,
       onChange = Undefined,
       error = Undefined,
       fieldTypes = default_fieldTypes,
       fieldsP = None,
       fieldComponentProps = Undefined \<rparr>"

definition ab_props :: fields_props where
  "ab_props =
     \<lparr> schema = Obj [(''a'', Obj [(''b'', Obj [(''type'', Str ''string'')])])],
       valueP = Obj [(''a'', Obj [(''b'', Str ''x'')])],
       onChange = Fun ''listener'' [],
       error = Obj [(''a'', Obj [(''b'', Str ''too short'')])],
       fieldTypes = default_fieldTypes,
       fieldsP = None,
       fieldComponentProps = Undefined \<rparr>"

text \<open>A schema with the keys \<open>z\<close>, \<open>a\<close> and \<open>m\<close>, in that order, and no \<open>fields\<close> list.\<close>

definition zam_props :: fields_props where
  "zam_props =
     \<lparr> schema =
         Obj [(''z'', Obj [(''type'', Str ''string'')]),
              (''a'', Obj [(''type'', Str ''string''), (''title'', Str ''First'')]),
              (''m'', Obj [(''type'', Str ''number'')])],
       valueP = Obj [],
       onChange = Undefined,
       error = Undefined,
       fieldTypes = default_fieldTypes,
       fieldsP = None,
       fieldComponentProps = Undefined \<rparr>"

text \<open>Forms: a validator that reports \<open>name\<close> as required and one that reports nothing, a
  submitter that rejects with a summary error and one that resolves, and an
  \<open>afterSubmit\<close> hook that rejects.\<close>

definition required_validator :: "jsval \<Rightarrow> jsval \<Rightarrow> outcome" where
  "required_validator s v = Resolved (Obj [(''name'', Str ''required'')])"

definition passing_validator :: "jsval \<Rightarrow> jsval \<Rightarrow> outcome" where
  "passing_validator s v = Resolved (Obj [])"

definition rejecting_submitter :: "jsval \<Rightarrow> outcome" where
  "rejecting_submitter v = Rejected (Obj [(''summaryError'', Str ''failed'')])"

definition accepting_submitter :: "jsval \<Rightarrow> outcome" where
  "accepting_submitter v = Resolved (Str ''saved'')"

definition failing_hook :: "jsval \<Rightarrow> jsval \<Rightarrow> outcome" where
  "failing_hook v r = Rejected (Str ''hook failed'')"

definition example_form :: form_props where
  "example_form =
     \<lparr> schemaF = example_schema,
       valueF = Obj [(''name'', Str ''Ann'')],
       renderF = Undefined,
       fieldsF = Undefined,
       showLabelsF = Undefined,
       fieldComponentsF = Undefined,
       validate = passing_validator,
       submitF = accepting_submitter,
       afterSubmit = Some failing_hook \<rparr>"

definition typed_state :: "jsval form_state" where
  "typed_state = \<lparr> valuesS = Obj [(''name'', Str ''Bob'')], errorsS = Str ''stale'' \<rparr>"

text \<open>A form state that holds a field error for \<open>name\<close>.\<close>

definition rejected_state :: "jsval form_state" where
  "rejected_state =
     \<lparr> valuesS = Obj [(''name'', Str ''Bob'')],
       errorsS = Obj [(''fieldErrors'', Obj [(''name'', Str ''required'')])] \<rparr>"

text \<open>The value tree of \<open>example_props\<close> in a store: the tree at address 0, its
  \<open>address\<close> object at address 1. \<open>city_data\<close> is the FieldData of the path
  \<open>address.city\<close>.\<close>

definition address_heap :: heap where
  "address_heap =
     [(False, [(''name'', HStr ''Ann''), (''address'', HRef 1)]),
      (False, [(''city'', HStr ''Oslo'')])]"

definition city_data :: field_data where
  "city_data =
     \<lparr> fieldPath = Some [''address'', ''city''],
       fieldPathString = Str ''address.city'',
       fieldSchema = Obj [(''type'', Str ''string'')],
       fieldError = Undefined,
       fieldType =
         Obj [(''fieldComponent'', TextInput),
              (''fieldComponentProps'', Obj [(''size'', Str ''type'')])],
       valueD = Str ''Oslo'',
       onChangeD = Fun ''changeField'' [Arr [Str ''address'', Str ''city''], Str ''address.city''] \<rparr>"

text \<open>The same store with the empty object of a new form's \<open>state.values\<close> at address 2.\<close>

definition form_heap :: heap where
  "form_heap = address_heap @ [(False, [])]"

section \<open>Properties\<close>

subsection \<open>Auxiliary facts\<close>

lemma split_dot_not_Nil: "split_dot s \<noteq> []"
  by (induction s) (auto split: list.splits)

lemma of_char_digit_char: "d < 10 \<Longrightarrow> (of_char (digit_char d) :: nat) = 48 + d"
  by (simp add: digit_char_def)

lemma read_nat_snoc: "read_nat (s @ [c]) = 10 * read_nat s + ((of_char c :: nat) - 48)"
  by (simp add: read_nat_def)

lemma read_show_nat: "read_nat (show_nat n) = n"
proof (induction n rule: show_nat.induct)
  case (1 n)
  show ?case
  proof (cases "n < 10")
    case True
    then show ?thesis
      by (subst show_nat.simps) (simp add: read_nat_def of_char_digit_char)
  next
    case False
    then have "read_nat (show_nat (n div 10)) = n div 10"
      using 1 by simp
    with False show ?thesis
      by (subst show_nat.simps) (simp add: read_nat_snoc of_char_digit_char)
  qed
qed

lemma inj_show_nat: "inj show_nat"
  by (rule inj_on_inverseI [where g = read_nat]) (rule read_show_nat)

lemma distinct_indexed: "distinct (map fst (indexed xs))"
  by (simp add: indexed_def distinct_map inj_on_subset [OF inj_show_nat])

lemma map_of_dedup_key: "map_of (dedup kvs) k = map_of kvs k"
proof (induction kvs rule: dedup.induct)
  case 1
  show ?case by simp
next
  case (2 p ps)
  have "map_of (filter (\<lambda>q. fst q \<noteq> fst p) ps) k = map_of ps k" if "k \<noteq> fst p"
    using that by (induction ps) auto
  with 2 show ?case
    by (cases p) auto
qed

lemma map_of_dedup: "map_of (dedup kvs) = map_of kvs"
  by (rule ext) (rule map_of_dedup_key)

lemma fst_set_dedup: "fst ` set (dedup kvs) \<subseteq> fst ` set kvs"
  by (induction kvs rule: dedup.induct) auto

lemma distinct_dedup: "distinct (map fst (dedup kvs))"
proof (induction kvs rule: dedup.induct)
  case 1
  show ?case by simp
next
  case (2 p ps)
  have "fst p \<notin> fst ` set (dedup (filter (\<lambda>q. fst q \<noteq> fst p) ps))"
    using fst_set_dedup [of "filter (\<lambda>q. fst q \<noteq> fst p) ps"] by auto
  with 2 show ?case by simp
qed

lemma distinct_own_props: "distinct (map fst (own_props v))"
  by (cases v) (simp_all add: distinct_dedup distinct_indexed)

lemma map_of_own_props_Obj: "map_of (own_props (Obj kvs)) = map_of kvs"
  by (simp add: map_of_dedup)

lemma map_of_obj_put: "map_of (obj_put k v kvs) = (map_of kvs)(k \<mapsto> v)"
  by (induction kvs) (auto simp: fun_upd_twist)

lemma map_of_fold_put:
  "distinct (map fst src) \<Longrightarrow>
   map_of (fold (\<lambda>(k, v) acc. obj_put k v acc) src kvs) = map_of kvs ++ map_of src"
proof (induction src arbitrary: kvs)
  case Nil
  show ?case by simp
next
  case (Cons p src)
  obtain k v where p: "p = (k, v)" by (cases p)
  from Cons.prems have notin: "k \<notin> fst ` set src" and d: "distinct (map fst src)"
    by (auto simp: p)
  have none: "map_of src k = None"
    using notin by (simp add: map_of_eq_None_iff)
  have step: "map_of (obj_put k v kvs) ++ map_of src = map_of kvs ++ map_of ((k, v) # src)"
  proof (rule ext)
    fix x
    show "(map_of (obj_put k v kvs) ++ map_of src) x = (map_of kvs ++ map_of ((k, v) # src)) x"
      using none by (cases "x = k") (simp_all add: map_of_obj_put map_add_def split: option.splits)
  qed
  have "map_of (fold (\<lambda>(k, v) acc. obj_put k v acc) ((k, v) # src) kvs)
        = map_of (fold (\<lambda>(k, v) acc. obj_put k v acc) src (obj_put k v kvs))"
    by simp
  also have "\<dots> = map_of (obj_put k v kvs) ++ map_of src"
    using Cons.IH [OF d] .
  also note step
  finally show ?case
    unfolding p .
qed

lemma map_of_spread: "map_of (spread kvs src) = map_of kvs ++ map_of (own_props src)"
  by (simp add: spread_def map_of_fold_put distinct_own_props)

lemma getFieldData_truthy: "getFieldData P rawPath = Inr fd \<Longrightarrow> truthy (fieldSchema fd)"
  by (auto simp: getFieldData_def Let_def split: prod.splits if_splits)

lemma truthy_not_nullish: "truthy v \<Longrightarrow> \<not> nullish v"
  by (auto simp: nullish_def)

lemma baseGet_walk_nested_lookup:
  "baseGet_walk x ks = (case nested_lookup x ks of Inr v \<Rightarrow> Some v | Inl e \<Rightarrow> None)"
  by (induction x ks rule: baseGet_walk.induct) simp_all

lemma lodash_get_lookup: "ks \<noteq> [] \<Longrightarrow> lodash_get x ks = lookup_or_undefined x ks"
  by (cases ks)
     (auto simp: lodash_get_def baseGet_def lookup_or_undefined_def baseGet_walk_nested_lookup
        split: sum.splits)

lemma lodash_get_Nil: "lodash_get x [] = Undefined"
  by (simp add: lodash_get_def baseGet_def)

lemma is_field_definition_truthy: "is_field_definition d \<Longrightarrow> truthy d"
  by (cases d) (simp_all add: is_field_definition_def is_object_def)

lemmas example_simps = example_props_def example_schema_def name_definition_def name_data_def
  getFieldData_def normalize_path_def get_at_def lodash_get_def baseGet_def nullish_def js_and_def
  js_or_def path_value_def TextInput_def

lemma getFieldData_name: "getFieldData example_props (PString ''name'') = Inr name_data"
  by (simp add: example_simps)

lemma getProps_name:
  "getPropsForFieldData example_props name_data =
     Inr [(''value'', Str ''global''),
          (''onChange'', Fun ''changeField'' [Arr [Str ''name''], Str ''name'']),
          (''error'', Str ''required''),
          (''schema'', name_definition),
          (''required'', Bool True),
          (''placeholder'', Str ''field''),
          (''size'', Str ''type'')]"
  by (simp add: getPropsForFieldData_def base_props_def spread_def example_props_def name_data_def
      name_definition_def nullish_def js_and_def lodash_get_def baseGet_def TextInput_def)

lemma fst_set_dedup_eq: "fst ` set (dedup kvs) = fst ` set kvs"
proof (induction kvs rule: dedup.induct)
  case 1
  show ?case by simp
next
  case (2 p ps)
  have "fst ` set (filter (\<lambda>q. fst q \<noteq> fst p) ps) = fst ` set ps - {fst p}"
    by auto
  with 2 show ?case by auto
qed

lemma distinct_lodash_keys: "distinct (lodash_keys v)"
  by (simp add: lodash_keys_def distinct_own_props)

lemma set_lodash_keys_Obj: "set (lodash_keys (Obj kvs)) = fst ` set kvs"
  by (simp add: lodash_keys_def fst_set_dedup_eq)

lemma map_throwing_keys:
  assumes "map_throwing f xs = Inr ys" and "\<And>x y. f x = Inr y \<Longrightarrow> g y = x"
  shows "map g ys = xs"
  using assms(1)
proof (induction xs arbitrary: ys)
  case Nil
  then show ?case by simp
next
  case (Cons x xs)
  from Cons.prems obtain y ys' where y: "f x = Inr y" and r: "map_throwing f xs = Inr ys'"
    and ys: "ys = y # ys'"
    by (auto split: sum.splits)
  from y have "g y = x" by (rule assms(2))
  with Cons.IH [OF r] ys show ?case by simp
qed

lemma renderItem_key: "renderItem titleize P x = Inr y \<Longrightarrow> item_key y = x"
  by (auto simp: renderItem_def split: sum.splits)

lemma sort_zam:
  assumes "distinct ks" and "set ks = {''z'', ''a'', ''m''}"
  shows "sort ks = [''a'', ''m'', ''z'']"
proof -
  have "sort ks = sort (remdups ks)"
    using assms(1) by (simp add: distinct_remdups_id)
  also have "\<dots> = sorted_list_of_set (set ks)"
    by (simp add: sorted_list_of_set_sort_remdups)
  also have "\<dots> = sorted_list_of_set (set [''z'', ''a'', ''m''])"
    using assms(2) by simp
  also have "\<dots> = sort (remdups [''z'', ''a'', ''m''])"
    by (simp only: sorted_list_of_set_sort_remdups)
  also have "\<dots> = [''a'', ''m'', ''z'']"
    by simp
  finally show ?thesis .
qed

lemmas render_simps = renderAllFields_def renderItem_def renderField_def getFieldData_def
  getPropsForFieldData_def normalize_path_def get_at_def lodash_get_def baseGet_def nullish_def
  js_and_def js_or_def path_value_def js_member_def base_props_def spread_def
  default_fieldTypes_def TextInput_def NumberInput_def

lemma zam_sorted: "sortedFieldNames zam_props = [''a'', ''m'', ''z'']"
  by (simp add: sortedFieldNames_def zam_props_def lodash_sortBy_def lodash_keys_def)

lemma zam_render:
  "map_sum id (map item_key) (renderAllFields (\<lambda>s. s) zam_props) = Inr [''a'', ''m'', ''z'']"
  by (simp add: renderAllFields_def zam_sorted)
     (simp add: zam_props_def render_simps)

lemma map_of_filter_snd:
  "distinct (map fst kvs) \<Longrightarrow>
   map_of (filter (\<lambda>p. Q (snd p)) kvs) k =
     (case map_of kvs k of Some v \<Rightarrow> if Q v then Some v else None | None \<Rightarrow> None)"
proof (induction kvs)
  case Nil
  show ?case by simp
next
  case (Cons p kvs)
  then have "map_of kvs (fst p) = None"
    by (simp add: map_of_eq_None_iff)
  with Cons show ?case
    by (cases p) (auto split: option.splits)
qed

lemma map_of_pickBy:
  "map_of (lodash_pickBy_truthy v) k =
     (case map_of (own_props v) k of Some x \<Rightarrow> if truthy x then Some x else None | None \<Rightarrow> None)"
  by (simp add: lodash_pickBy_truthy_def map_of_filter_snd distinct_own_props)

lemma map_of_filter_key_ref:
  "map_of (filter (\<lambda>p. fst p \<noteq> ''key'' \<and> fst p \<noteq> ''ref'') kvs) k =
     (if k \<noteq> ''key'' \<and> k \<noteq> ''ref'' then map_of kvs k else None)"
  by (induction kvs) auto

lemma map_of_apply_default:
  "map_of (apply_default k d props) x =
     (if x = k \<and> (map_of props k = None \<or> map_of props k = Some Undefined) then Some d
      else map_of props x)"
  by (simp add: apply_default_def map_of_obj_put split: option.splits)

lemma createElement_props_Fields:
  "createElement_props Fields_defaultProps config =
     apply_default ''value'' (Obj [])
       (apply_default ''fieldComponents'' (Obj [])
          (filter (\<lambda>p. fst p \<noteq> ''key'' \<and> fst p \<noteq> ''ref'') config))"
  by (simp add: createElement_props_def Fields_defaultProps_def)

lemma map_of_renderFields_config:
  "map_of (spread [(''schema'', s), (''render'', r)]
            (Obj (spread [(''fieldTypes'', d)] (Obj (lodash_pickBy_truthy opts))))) k =
     (case map_of (lodash_pickBy_truthy opts) k of
        Some v \<Rightarrow> Some v
      | None \<Rightarrow> map_of [(''schema'', s), (''render'', r), (''fieldTypes'', d)] k)"
  by (simp add: map_of_spread map_of_dedup map_add_def split: option.splits)

lemma Form_options_props:
  "map_of (own_props (Form_options F st)) =
     map_of [(''value'', valueF F),
          (''onChange'', Fun ''Form.onChange'' []),
          (''fields'', fieldsF F),
          (''showLabels'', showLabelsF F),
          (''fieldComponents'', fieldComponentsF F),
          (''errors'', js_and (errorsS st) (js_prop (errorsS st) ''fieldErrors'')),
          (''fieldsContext'',
             Obj [(''renderSubmit'', Fun ''Form.renderSubmit'' []),
                  (''submit'', Fun ''Form.submit'' [])])]"
  by (simp add: Form_options_def map_of_dedup)

lemmas element_simps = renderFields_element_def Let_def createElement_props_Fields
  map_of_apply_default map_of_filter_key_ref map_of_renderFields_config map_of_pickBy Form_options_props

lemma element_schema:
  "js_prop (Obj (renderFields_element (schemaF F) (Form_options F st) (renderF F))) ''schema'' = schemaF F"
  by (simp add: element_simps)

lemma element_value:
  "js_prop (Obj (renderFields_element (schemaF F) (Form_options F st) (renderF F))) ''value''
     = (if truthy (valueF F) then valueF F else Obj [])"
  by (auto simp: element_simps)

lemma element_onChange:
  "js_prop (Obj (renderFields_element (schemaF F) (Form_options F st) (renderF F))) ''onChange''
     = Fun ''Form.onChange'' []"
  by (simp add: element_simps)

lemma element_error:
  "js_prop (Obj (renderFields_element (schemaF F) (Form_options F st) (renderF F))) ''error'' = Undefined"
  by (simp add: element_simps)

lemma element_errors:
  "js_prop (Obj (renderFields_element (schemaF F) (Form_options F st) (renderF F))) ''errors''
     = (if truthy (js_and (errorsS st) (js_prop (errorsS st) ''fieldErrors''))
        then js_prop (errorsS st) ''fieldErrors'' else Undefined)"
  by (auto simp: element_simps js_and_def)

lemma element_fieldTypes:
  "js_prop (Obj (renderFields_element (schemaF F) (Form_options F st) (renderF F))) ''fieldTypes''
     = default_fieldTypes"
  by (simp add: element_simps)

lemma element_fields:
  "js_prop (Obj (renderFields_element (schemaF F) (Form_options F st) (renderF F))) ''fields''
     = (if truthy (fieldsF F) then fieldsF F else Undefined)"
  by (simp add: element_simps)

lemma element_fieldComponentProps:
  "js_prop (Obj (renderFields_element (schemaF F) (Form_options F st) (renderF F))) ''fieldComponentProps''
     = Undefined"
  by (simp add: element_simps)

lemma Form_render_fields_eq:
  "Form_render_fields F st =
     \<lparr> schema = schemaF F,
       valueP = (if truthy (valueF F) then valueF F else Obj []),
       onChange = Fun ''Form.onChange'' [],
       error = Undefined,
       fieldTypes = default_fieldTypes,
       fieldsP = decode_fields (if truthy (fieldsF F) then fieldsF F else Undefined),
       fieldComponentProps = Undefined \<rparr>"
  unfolding Form_render_fields_def renderFields_def Fields_props_def
  by (simp only: element_schema element_value element_onChange element_error element_fieldTypes
      element_fields element_fieldComponentProps)


lemma get_at_Undefined: "get_at Undefined path = Undefined"
  by (cases path) (simp_all add: get_at_def lodash_get_def nullish_def)

lemma rejected_state_errors:
  "errorsS rejected_state = Obj [(''fieldErrors'', Obj [(''name'', Str ''required'')])]"
  by (simp add: rejected_state_def)

lemma Form_fields_name:
  "getFieldData (Form_render_fields example_form rejected_state) (PString ''name'') =
     Inr \<lparr> fieldPath = Some [''name''],
           fieldPathString = Str ''name'',
           fieldSchema = name_definition,
           fieldError = Undefined,
           fieldType = Obj [(''fieldComponent'', TextInput)],
           valueD = Str ''Ann'',
           onChangeD = Fun ''changeField'' [Arr [Str ''name''], Str ''name''] \<rparr>"
  by (simp add: Form_render_fields_eq example_form_def example_simps default_fieldTypes_def)

subsection \<open>Precedence of component props\<close>

text \<open>
  Claim C5. For every resolved field, \<open>getPropsForFieldData\<close> returns a props object, and
  the object is the merge, in increasing precedence, of the base props (\<open>value\<close>,
  \<open>onChange\<close>, \<open>error\<close>, \<open>schema\<close>, and \<open>required\<close> read from \<open>rules.required\<close>), the
  global \<open>fieldComponentProps\<close> of the instance, the \<open>fieldComponentProps\<close> of the field's
  definition and the \<open>fieldComponentProps\<close> of its type-registry entry: \<open>m ++ n\<close> takes the
  value of \<open>n\<close> wherever \<open>n\<close> has the key, so the rightmost level that has a key decides it.
\<close>

theorem props_precedence:
  assumes "getFieldData P rawPath = Inr fd"
  shows "\<exists>props. getPropsForFieldData P fd = Inr props \<and>
           map_of props =
             map_of [(''value'', valueD fd), (''onChange'', onChangeD fd), (''error'', fieldError fd),
                     (''schema'', fieldSchema fd),
                     (''required'', lodash_get (fieldSchema fd) [''rules'', ''required''])]
             ++ map_of (own_props (fieldComponentProps P))
             ++ map_of (own_props (js_prop (fieldSchema fd) ''fieldComponentProps''))
             ++ map_of (own_props (js_and (fieldType fd) (js_prop (fieldType fd) ''fieldComponentProps'')))"
proof -
  have "\<not> nullish (fieldSchema fd)"
    using assms by (simp add: getFieldData_truthy truthy_not_nullish)
  then show ?thesis
    by (simp add: getPropsForFieldData_def map_of_spread base_props_def)
qed

theorem props_precedence_witness:
  "getFieldData example_props (PString ''name'') = Inr name_data \<and>
   (\<exists>props. getPropsForFieldData example_props name_data = Inr props \<and>
      map_of props ''value'' = Some (Str ''global'') \<and>
      map_of props ''placeholder'' = Some (Str ''field'') \<and>
      map_of props ''size'' = Some (Str ''type'') \<and>
      map_of props ''error'' = Some (Str ''required'') \<and>
      map_of props ''required'' = Some (Bool True))"
proof -
  have h: "getFieldData example_props (PString ''name'') = Inr name_data"
    by (rule getFieldData_name)
  from props_precedence [OF h] obtain props where
    p: "getPropsForFieldData example_props name_data = Inr props" and
    m: "map_of props =
          map_of [(''value'', valueD name_data), (''onChange'', onChangeD name_data),
                  (''error'', fieldError name_data), (''schema'', fieldSchema name_data),
                  (''required'', lodash_get (fieldSchema name_data) [''rules'', ''required''])]
          ++ map_of (own_props (fieldComponentProps example_props))
          ++ map_of (own_props (js_prop (fieldSchema name_data) ''fieldComponentProps''))
          ++ map_of (own_props (js_and (fieldType name_data)
                                  (js_prop (fieldType name_data) ''fieldComponentProps'')))"
    by blast
  have "map_of props ''value'' = Some (Str ''global'')"
       "map_of props ''placeholder'' = Some (Str ''field'')"
       "map_of props ''size'' = Some (Str ''type'')"
       "map_of props ''error'' = Some (Str ''required'')"
       "map_of props ''required'' = Some (Bool True)"
    unfolding m
    by (simp_all add: example_props_def name_data_def name_definition_def js_and_def
        lodash_get_def baseGet_def nullish_def TextInput_def)
  with h p show ?thesis by blast
qed

text \<open>
  Claim C6 states the opposite order: type registry, then field, then global, then the
  base props on top. At the example field the key \<open>value\<close> is in the base props
  (\<open>Ann\<close>) and in the global props, \<open>placeholder\<close> is in the global props and on the
  field, and \<open>size\<close> is on the field and in the type registry. The props that come out
  have the global \<open>value\<close>, the field's \<open>placeholder\<close> and the registry's \<open>size\<close>: at
  each of the three pairs of levels the claim names the wrong winner.
\<close>

theorem props_order_reversed_counterexample:
  "getFieldData example_props (PString ''name'') = Inr name_data \<and>
   valueD name_data = Str ''Ann'' \<and>
   fieldComponentProps example_props = Obj [(''value'', Str ''global''), (''placeholder'', Str ''global'')] \<and>
   js_prop (fieldSchema name_data) ''fieldComponentProps''
     = Obj [(''placeholder'', Str ''field''), (''size'', Str ''field'')] \<and>
   js_prop (fieldType name_data) ''fieldComponentProps'' = Obj [(''size'', Str ''type'')] \<and>
   getPropsForFieldData example_props name_data =
     Inr [(''value'', Str ''global''),
          (''onChange'', Fun ''changeField'' [Arr [Str ''name''], Str ''name'']),
          (''error'', Str ''required''),
          (''schema'', name_definition),
          (''required'', Bool True),
          (''placeholder'', Str ''field''),
          (''size'', Str ''type'')]"
  using getFieldData_name getProps_name
  by (simp add: name_data_def example_props_def name_definition_def)

text \<open>
  Claim C6, amended to the order of the code. For every field path that \<open>propsFor\<close>
  resolves, each key of the props is decided by the first of these levels that has it:
  the type-registry props, the field-level props, the global props of the instance, the
  base props. So the type registry wins over the field, the field over the global props,
  and the global props over the base props.
\<close>

theorem props_override_order:
  assumes "propsFor P rawPath = Inr props"
  shows "\<exists>fd. getFieldData P rawPath = Inr fd \<and>
           (\<forall>k. map_of props k =
              (case map_of (own_props (js_and (fieldType fd) (js_prop (fieldType fd) ''fieldComponentProps''))) k of
                 Some v \<Rightarrow> Some v
               | None \<Rightarrow>
                  (case map_of (own_props (js_prop (fieldSchema fd) ''fieldComponentProps'')) k of
                     Some v \<Rightarrow> Some v
                   | None \<Rightarrow>
                      (case map_of (own_props (fieldComponentProps P)) k of
                         Some v \<Rightarrow> Some v
                       | None \<Rightarrow> map_of (base_props fd) k))))"
proof -
  from assms obtain fd where fd: "getFieldData P rawPath = Inr fd"
    and props: "getPropsForFieldData P fd = Inr props"
    by (auto simp: propsFor_def split: sum.splits)
  have "\<not> nullish (fieldSchema fd)"
    using fd by (simp add: getFieldData_truthy truthy_not_nullish)
  with props have "props = spread (spread (spread (base_props fd) (fieldComponentProps P))
        (js_prop (fieldSchema fd) ''fieldComponentProps''))
        (js_and (fieldType fd) (js_prop (fieldType fd) ''fieldComponentProps''))"
    by (simp add: getPropsForFieldData_def)
  then have "\<forall>k. map_of props k =
              (case map_of (own_props (js_and (fieldType fd) (js_prop (fieldType fd) ''fieldComponentProps''))) k of
                 Some v \<Rightarrow> Some v
               | None \<Rightarrow>
                  (case map_of (own_props (js_prop (fieldSchema fd) ''fieldComponentProps'')) k of
                     Some v \<Rightarrow> Some v
                   | None \<Rightarrow>
                      (case map_of (own_props (fieldComponentProps P)) k of
                         Some v \<Rightarrow> Some v
                       | None \<Rightarrow> map_of (base_props fd) k)))"
    by (simp add: map_of_spread map_add_def split: option.splits)
  with fd show ?thesis by blast
qed

theorem props_override_order_witness:
  "propsFor example_props (PString ''name'') =
     Inr [(''value'', Str ''global''),
          (''onChange'', Fun ''changeField'' [Arr [Str ''name''], Str ''name'']),
          (''error'', Str ''required''),
          (''schema'', name_definition),
          (''required'', Bool True),
          (''placeholder'', Str ''field''),
          (''size'', Str ''type'')] \<and>
   (\<exists>fd. getFieldData example_props (PString ''name'') = Inr fd \<and>
      map_of (own_props (js_and (fieldType fd) (js_prop (fieldType fd) ''fieldComponentProps''))) ''size''
        = Some (Str ''type''))"
proof -
  have h: "propsFor example_props (PString ''name'') =
     Inr [(''value'', Str ''global''),
          (''onChange'', Fun ''changeField'' [Arr [Str ''name''], Str ''name'']),
          (''error'', Str ''required''),
          (''schema'', name_definition),
          (''required'', Bool True),
          (''placeholder'', Str ''field''),
          (''size'', Str ''type'')]"
    by (simp add: propsFor_def getFieldData_name getProps_name)
  from props_override_order [OF h] obtain fd where
    fd: "getFieldData example_props (PString ''name'') = Inr fd"
    by blast
  then have "fd = name_data"
    by (simp add: getFieldData_name)
  then have "map_of (own_props (js_and (fieldType fd) (js_prop (fieldType fd) ''fieldComponentProps''))) ''size''
        = Some (Str ''type'')"
    by (simp add: name_data_def js_and_def TextInput_def)
  with h fd show ?thesis by blast
qed

subsection \<open>Field resolution\<close>

text \<open>
  Claim C1 says that resolution fails whenever no Field Definition exists at the path,
  and that it returns the definition found by direct nested lookup whenever one exists,
  for every field path. The guard of \<open>getFieldData\<close> is the truthiness of what
  \<open>_.get\<close> finds, and \<open>_.get\<close> finds nothing along an empty array of keys. So the path
  \<open>name.title\<close> of the example schema, where direct lookup finds the string \<open>Name\<close> and
  no Field Definition, is resolved by a normal return with that string as the definition;
  and for a schema that is itself one Field Definition the empty key sequence, at which
  direct lookup finds that definition, fails with the invariant.
\<close>

theorem getFieldData_definition_counterexample:
  "nested_lookup (schema example_props) [''name'', ''title''] = Inr (Str ''Name'') \<and>
   \<not> is_field_definition (Str ''Name'') \<and>
   getFieldData example_props (PString ''name.title'') =
     Inr \<lparr> fieldPath = Some [''name'', ''title''],
           fieldPathString = Str ''name.title'',
           fieldSchema = Str ''Name'',
           fieldError = Undefined,
           fieldType = Undefined,
           valueD = Undefined,
           onChangeD = Fun ''changeField'' [Arr [Str ''name'', Str ''title''], Str ''name.title''] \<rparr> \<and>
   nested_lookup (schema age_props) [] = Inr (Obj [(''title'', Str ''Age''), (''type'', Str ''number'')]) \<and>
   is_field_definition (Obj [(''title'', Str ''Age''), (''type'', Str ''number'')]) \<and>
   getFieldData age_props (PArray []) = Inl (InvariantViolation (not_defined_message Null))"
  by (simp add: example_simps age_props_def is_field_definition_def is_object_def absent_or_def
      is_string_def is_func_def is_index_def is_digit_def)

text \<open>
  Claim C1, amended. For every schema and every field path given as a dotted string or as
  a sequence of keys, with \<open>ks\<close> the keys it denotes: if \<open>ks\<close> is not empty and direct
  nested lookup finds a truthy value at \<open>ks\<close> (every Field Definition is one),
  \<open>getFieldData\<close> returns normally, its definition is the value found, and its value and
  its field-level error are the lookups at the same keys in the value tree and in the
  error tree, an absent location giving \<open>undefined\<close>; if \<open>ks\<close> is empty, or the lookup
  finds nothing or a falsy value, \<open>getFieldData\<close> throws the invariant whose message names
  the path string.
\<close>

theorem getFieldData_resolution:
  assumes "normalize_path rawPath = (ps, Some ks)"
  shows "(ks \<noteq> [] \<and> nested_lookup (schema P) ks = Inr d \<and> truthy d \<longrightarrow>
            (\<exists>fd. getFieldData P rawPath = Inr fd \<and>
                  fieldSchema fd = d \<and>
                  valueD fd = lookup_or_undefined (valueP P) ks \<and>
                  fieldError fd = lookup_or_undefined (error P) ks \<and>
                  fieldPath fd = Some ks))
       \<and> (is_field_definition d \<longrightarrow> truthy d)
       \<and> (ks = [] \<or> \<not> truthy (lookup_or_undefined (schema P) ks) \<longrightarrow>
            getFieldData P rawPath = Inl (InvariantViolation (not_defined_message ps)))"
proof (intro conjI impI)
  assume a: "ks \<noteq> [] \<and> nested_lookup (schema P) ks = Inr d \<and> truthy d"
  then have "lodash_get (schema P) ks = d"
    by (simp add: lodash_get_lookup lookup_or_undefined_def)
  with a assms show "\<exists>fd. getFieldData P rawPath = Inr fd \<and>
                  fieldSchema fd = d \<and>
                  valueD fd = lookup_or_undefined (valueP P) ks \<and>
                  fieldError fd = lookup_or_undefined (error P) ks \<and>
                  fieldPath fd = Some ks"
    by (simp add: getFieldData_def get_at_def lodash_get_lookup)
next
  assume "is_field_definition d"
  then show "truthy d" by (rule is_field_definition_truthy)
next
  assume "ks = [] \<or> \<not> truthy (lookup_or_undefined (schema P) ks)"
  then have "\<not> truthy (lodash_get (schema P) ks)"
    by (cases "ks = []") (simp_all add: lodash_get_Nil lodash_get_lookup)
  with assms show "getFieldData P rawPath = Inl (InvariantViolation (not_defined_message ps))"
    by (simp add: getFieldData_def get_at_def)
qed

theorem getFieldData_resolution_witness:
  "normalize_path (PString ''name'') = (Str ''name'', Some [''name'']) \<and>
   nested_lookup (schema example_props) [''name''] = Inr name_definition \<and>
   is_field_definition name_definition \<and>
   (\<exists>fd. getFieldData example_props (PString ''name'') = Inr fd \<and>
         fieldSchema fd = name_definition \<and> valueD fd = Str ''Ann'' \<and>
         fieldError fd = Str ''required'') \<and>
   normalize_path (PArray [''address'', ''zip'', ''code'']) = (Null, Some [''address'', ''zip'', ''code'']) \<and>
   nested_lookup (schema example_props) [''address'', ''zip'', ''code''] = Inl TypeError \<and>
   getFieldData example_props (PArray [''address'', ''zip'', ''code''])
     = Inl (InvariantViolation (not_defined_message Null)) \<and>
   lookup_or_undefined (valueP example_props) [''address'', ''zip'', ''code''] = Undefined"
proof -
  have n1: "normalize_path (PString ''name'') = (Str ''name'', Some [''name''])"
    by (simp add: normalize_path_def)
  have l1: "nested_lookup (schema example_props) [''name''] = Inr name_definition"
    by (simp add: example_props_def example_schema_def nullish_def)
  have d1: "is_field_definition name_definition"
    by (simp add: is_field_definition_def name_definition_def is_object_def absent_or_def
        is_string_def is_func_def nullish_def)
  have v1: "lookup_or_undefined (valueP example_props) [''name''] = Str ''Ann''"
           "lookup_or_undefined (error example_props) [''name''] = Str ''required''"
    by (simp_all add: lookup_or_undefined_def example_props_def nullish_def)
  have n2: "normalize_path (PArray [''address'', ''zip'', ''code''])
              = (Null, Some [''address'', ''zip'', ''code''])"
    by (simp add: normalize_path_def)
  have l2: "nested_lookup (schema example_props) [''address'', ''zip'', ''code''] = Inl TypeError"
    by (simp add: example_props_def example_schema_def name_definition_def nullish_def)
  have v2: "lookup_or_undefined (valueP example_props) [''address'', ''zip'', ''code''] = Undefined"
    by (simp add: lookup_or_undefined_def example_props_def nullish_def)
  have r1: "\<exists>fd. getFieldData example_props (PString ''name'') = Inr fd \<and>
         fieldSchema fd = name_definition \<and> valueD fd = Str ''Ann'' \<and>
         fieldError fd = Str ''required''"
    using getFieldData_resolution [OF n1, of example_props name_definition] l1 d1 v1
    by auto
  have r2: "getFieldData example_props (PArray [''address'', ''zip'', ''code''])
     = Inl (InvariantViolation (not_defined_message Null))"
    using getFieldData_resolution [OF n2, of example_props Undefined] l2
    by (simp add: lookup_or_undefined_def)
  from n1 l1 d1 r1 n2 l2 r2 v2 show ?thesis by blast
qed

text \<open>
  Claim C7 says that the dotted string \<open>a.b\<close> and the array of \<open>a\<close> and \<open>b\<close> yield the
  same FieldData. The two results have the same keys, definition, error, type entry and
  value, and they differ in \<open>fieldPathString\<close>, which is the string given in the first
  and \<open>null\<close> in the second, and with it in the bound change-callback, which passes
  \<open>fieldPathString\<close> on to the change listener.
\<close>

theorem dotted_and_array_paths_counterexample:
  "getFieldData ab_props (PString ''a.b'') =
     Inr \<lparr> fieldPath = Some [''a'', ''b''],
           fieldPathString = Str ''a.b'',
           fieldSchema = Obj [(''type'', Str ''string'')],
           fieldError = Str ''too short'',
           fieldType = Obj [(''fieldComponent'', TextInput)],
           valueD = Str ''x'',
           onChangeD = Fun ''changeField'' [Arr [Str ''a'', Str ''b''], Str ''a.b''] \<rparr> \<and>
   getFieldData ab_props (PArray [''a'', ''b'']) =
     Inr \<lparr> fieldPath = Some [''a'', ''b''],
           fieldPathString = Null,
           fieldSchema = Obj [(''type'', Str ''string'')],
           fieldError = Str ''too short'',
           fieldType = Obj [(''fieldComponent'', TextInput)],
           valueD = Str ''x'',
           onChangeD = Fun ''changeField'' [Arr [Str ''a'', Str ''b''], Null] \<rparr> \<and>
   getFieldData ab_props (PString ''a.b'') \<noteq> getFieldData ab_props (PArray [''a'', ''b''])"
  by (simp add: ab_props_def example_simps default_fieldTypes_def)

text \<open>
  Claim C7, amended. For every schema, value tree and error tree and every dotted string,
  resolving the array of its split keys gives what resolving the string gives with
  \<open>fieldPathString\<close> set to \<open>null\<close>, in the FieldData and in its change-callback: the
  key sequence, the definition, the value, the error and the type entry are the same, and
  the one fails exactly when the other does (with \<open>null\<close> for the path in the message).
\<close>

theorem dotted_and_array_paths:
  "getFieldData P (PArray (split_dot s)) =
     (case getFieldData P (PString s) of
        Inl e \<Rightarrow> Inl (InvariantViolation (not_defined_message Null))
      | Inr fd \<Rightarrow>
          Inr (fd\<lparr> fieldPathString := Null,
                    onChangeD := Fun ''changeField'' [Arr (map Str (split_dot s)), Null] \<rparr>))"
  by (simp add: getFieldData_def normalize_path_def path_value_def Let_def)

theorem dotted_and_array_paths_witness:
  "getFieldData ab_props (PArray [''a'', ''b'']) =
     Inr \<lparr> fieldPath = Some [''a'', ''b''],
           fieldPathString = Null,
           fieldSchema = Obj [(''type'', Str ''string'')],
           fieldError = Str ''too short'',
           fieldType = Obj [(''fieldComponent'', TextInput)],
           valueD = Str ''x'',
           onChangeD = Fun ''changeField'' [Arr [Str ''a'', Str ''b''], Null] \<rparr>"
proof -
  have "split_dot ''a.b'' = [''a'', ''b'']"
    by simp
  moreover have "getFieldData ab_props (PString ''a.b'') =
     Inr \<lparr> fieldPath = Some [''a'', ''b''],
           fieldPathString = Str ''a.b'',
           fieldSchema = Obj [(''type'', Str ''string'')],
           fieldError = Str ''too short'',
           fieldType = Obj [(''fieldComponent'', TextInput)],
           valueD = Str ''x'',
           onChangeD = Fun ''changeField'' [Arr [Str ''a'', Str ''b''], Str ''a.b''] \<rparr>"
    by (simp add: ab_props_def example_simps default_fieldTypes_def)
  ultimately show ?thesis
    using dotted_and_array_paths [of ab_props "''a.b''"] by simp
qed

subsection \<open>Order of the fields\<close>

text \<open>
  Claim C8. The names that \<open>renderAllFields\<close> renders, in order, are the \<open>fields\<close> list
  when one is given; otherwise they are the keys of the schema in strictly ascending
  lexicographic order. When the rendering returns, its items carry exactly these names as
  keys, in this order. A schema object whose keys are \<open>z\<close>, \<open>a\<close> and \<open>m\<close>, in whatever
  order they were inserted, is rendered in the order \<open>a\<close>, \<open>m\<close>, \<open>z\<close> when no list is
  given.
\<close>

theorem renderAllFields_order:
  "(fieldsP P = Some fs \<longrightarrow> sortedFieldNames P = fs)
   \<and> (fieldsP P = None \<longrightarrow>
        sorted_wrt (<) (sortedFieldNames P) \<and> set (sortedFieldNames P) = set (lodash_keys (schema P)))
   \<and> (renderAllFields titleize P = Inr items \<longrightarrow> map item_key items = sortedFieldNames P)
   \<and> (fieldsP P = None \<and> schema P = Obj kvs \<and> fst ` set kvs = {''z'', ''a'', ''m''} \<longrightarrow>
        sortedFieldNames P = [''a'', ''m'', ''z''])"
proof (intro conjI impI)
  assume "fieldsP P = Some fs"
  then show "sortedFieldNames P = fs"
    by (simp add: sortedFieldNames_def)
next
  assume n: "fieldsP P = None"
  then have s: "sortedFieldNames P = sort (lodash_keys (schema P))"
    by (simp add: sortedFieldNames_def lodash_sortBy_def)
  show "sorted_wrt (<) (sortedFieldNames P)"
    unfolding s by (simp add: strict_sorted_iff distinct_lodash_keys)
  show "set (sortedFieldNames P) = set (lodash_keys (schema P))"
    unfolding s by simp
next
  assume "renderAllFields titleize P = Inr items"
  then have "map_throwing (renderItem titleize P) (sortedFieldNames P) = Inr items"
    by (simp add: renderAllFields_def)
  then show "map item_key items = sortedFieldNames P"
    by (rule map_throwing_keys) (rule renderItem_key)
next
  assume a: "fieldsP P = None \<and> schema P = Obj kvs \<and> fst ` set kvs = {''z'', ''a'', ''m''}"
  then have "sortedFieldNames P = sort (lodash_keys (Obj kvs))"
    by (simp add: sortedFieldNames_def lodash_sortBy_def)
  also have "\<dots> = [''a'', ''m'', ''z'']"
    using a by (intro sort_zam distinct_lodash_keys) (simp add: set_lodash_keys_Obj)
  finally show "sortedFieldNames P = [''a'', ''m'', ''z'']" .
qed

theorem renderAllFields_order_witness:
  "fieldsP zam_props = None \<and>
   (\<exists>kvs. schema zam_props = Obj kvs \<and> fst ` set kvs = {''z'', ''a'', ''m''}) \<and>
   sortedFieldNames zam_props = [''a'', ''m'', ''z''] \<and>
   (\<exists>items. renderAllFields (\<lambda>s. s) zam_props = Inr items \<and> map item_key items = [''a'', ''m'', ''z'']) \<and>
   fieldsP (zam_props\<lparr> fieldsP := Some [''m'', ''z''] \<rparr>) = Some [''m'', ''z''] \<and>
   sortedFieldNames (zam_props\<lparr> fieldsP := Some [''m'', ''z''] \<rparr>) = [''m'', ''z'']"
proof -
  define kvs where "kvs = [(''z'', Obj [(''type'', Str ''string'')]),
              (''a'', Obj [(''type'', Str ''string''), (''title'', Str ''First'')]),
              (''m'', Obj [(''type'', Str ''number'')])]"
  have n: "fieldsP zam_props = None"
    by (simp add: zam_props_def)
  have k1: "schema zam_props = Obj kvs"
    by (simp add: zam_props_def kvs_def)
  have k2: "fst ` set kvs = {''z'', ''a'', ''m''}"
    by (simp add: kvs_def)
  obtain items where i: "renderAllFields (\<lambda>s. s) zam_props = Inr items"
    using zam_render by (cases "renderAllFields (\<lambda>s. s) zam_props") auto
  note r = renderAllFields_order [of zam_props "[]" "\<lambda>s. s" items kvs]
  have s: "sortedFieldNames zam_props = [''a'', ''m'', ''z'']"
    by (rule r [THEN conjunct2, THEN conjunct2, THEN conjunct2, THEN mp]) (intro conjI n k1 k2)
  have "map item_key items = sortedFieldNames zam_props"
    by (rule r [THEN conjunct2, THEN conjunct2, THEN conjunct1, THEN mp]) (rule i)
  then have m: "map item_key items = [''a'', ''m'', ''z'']"
    by (simp only: s)
  have f: "fieldsP (zam_props\<lparr> fieldsP := Some [''m'', ''z''] \<rparr>) = Some [''m'', ''z'']"
    by simp
  have g: "sortedFieldNames (zam_props\<lparr> fieldsP := Some [''m'', ''z''] \<rparr>) = [''m'', ''z'']"
    by (rule renderAllFields_order [of "zam_props\<lparr> fieldsP := Some [''m'', ''z''] \<rparr>" "[''m'', ''z'']"
          "\<lambda>s. s" "[]" "[]", THEN conjunct1, THEN mp]) (rule f)
  show ?thesis
  proof (intro conjI)
    show "\<exists>kvs. schema zam_props = Obj kvs \<and> fst ` set kvs = {''z'', ''a'', ''m''}"
      by (intro exI [of _ kvs] conjI k1 k2)
    show "\<exists>items. renderAllFields (\<lambda>s. s) zam_props = Inr items
            \<and> map item_key items = [''a'', ''m'', ''z'']"
      by (intro exI [of _ items] conjI i m)
  qed (rule n s f g)+
qed

subsection \<open>The submit cycle\<close>

text \<open>
  Every run of \<open>submit\<close> first sets the error state to \<open>null\<close> and calls the validator
  with the schema and the values of the state; a rejection of the validator is the
  rejection of the run. When the validator resolves, the run reaches \<open>_.isEmpty\<close>. With
  \<open>_\<close> unbound, as the module leaves it, the run ends there: the error state stays
  \<open>null\<close>, nothing else is called and the run rejects with the ReferenceError. With
  lodash bound to \<open>_\<close> the run goes on: a result that is not empty is stored as
  \<open>{fieldErrors: ...}\<close> and ends the run; after an empty one the submitter is called, its
  rejection is stored verbatim, and after its success \<open>afterSubmit\<close>, when configured, is
  called once with the values and the result, its rejection being the rejection of the
  run.
\<close>

lemma submit_validator_rejects:
  "validate F (schemaF F) (valuesS st) = Rejected e \<Longrightarrow>
   Form_submit underscore F st =
     \<lparr> final_state = st\<lparr> errorsS := Null \<rparr>,
       trace = [SetState_errors Null, Call_validate (schemaF F) (valuesS st)],
       returned = Rejected e \<rparr>"
  by (simp add: Form_submit_def Let_def)

lemma submit_unbound:
  "validate F (schemaF F) (valuesS st) = Resolved fieldErrors \<Longrightarrow>
   Form_submit Unbound F st =
     \<lparr> final_state = st\<lparr> errorsS := Null \<rparr>,
       trace = [SetState_errors Null, Call_validate (schemaF F) (valuesS st)],
       returned = Rejected reference_error \<rparr>"
  by (simp add: Form_submit_def Let_def)

lemma submit_lodash_invalid:
  "validate F (schemaF F) (valuesS st) = Resolved fieldErrors \<Longrightarrow> \<not> lodash_isEmpty fieldErrors \<Longrightarrow>
   Form_submit Lodash F st =
     \<lparr> final_state = st\<lparr> errorsS := Obj [(''fieldErrors'', fieldErrors)] \<rparr>,
       trace = [SetState_errors Null, Call_validate (schemaF F) (valuesS st),
                SetState_errors (Obj [(''fieldErrors'', fieldErrors)])],
       returned = Resolved Undefined \<rparr>"
  by (simp add: Form_submit_def Let_def)

lemma submit_lodash_submitter_rejects:
  "validate F (schemaF F) (valuesS st) = Resolved fieldErrors \<Longrightarrow> lodash_isEmpty fieldErrors \<Longrightarrow>
   submitF F (valuesS st) = Rejected errs \<Longrightarrow>
   Form_submit Lodash F st =
     \<lparr> final_state = st\<lparr> errorsS := errs \<rparr>,
       trace = [SetState_errors Null, Call_validate (schemaF F) (valuesS st),
                Call_submit (valuesS st), SetState_errors errs],
       returned = Resolved Undefined \<rparr>"
  by (simp add: Form_submit_def Let_def)

lemma submit_lodash_submitter_resolves:
  "validate F (schemaF F) (valuesS st) = Resolved fieldErrors \<Longrightarrow> lodash_isEmpty fieldErrors \<Longrightarrow>
   submitF F (valuesS st) = Resolved res \<Longrightarrow>
   Form_submit Lodash F st =
     \<lparr> final_state = st\<lparr> errorsS := Null \<rparr>,
       trace = [SetState_errors Null, Call_validate (schemaF F) (valuesS st), Call_submit (valuesS st)]
               @ (case afterSubmit F of None \<Rightarrow> [] | Some after \<Rightarrow> [Call_afterSubmit (valuesS st) res]),
       returned = (case afterSubmit F of
                     None \<Rightarrow> Resolved Undefined
                   | Some after \<Rightarrow>
                       (case after (valuesS st) res of
                          Rejected e \<Rightarrow> Rejected e
                        | Resolved r \<Rightarrow> Resolved Undefined)) \<rparr>"
  by (simp add: Form_submit_def Let_def split: option.splits outcome.splits)

lemmas form_example_simps = example_form_def typed_state_def required_validator_def
  passing_validator_def rejecting_submitter_def accepting_submitter_def failing_hook_def

text \<open>
  Claim C2 says that the submitter is invoked exactly when the validator's result is
  empty, and that a result such as \<open>{name: 'required'}\<close> becomes the error state
  \<open>{fieldErrors: {name: 'required'}}\<close>. The code as it stands does neither. With a
  validator that reports \<open>name\<close> as required, the run clears the stale error, calls the
  validator, and rejects with the ReferenceError of \<open>_\<close>: the error state is \<open>null\<close>, not
  the field errors. With a validator that reports nothing, the run ends the same way, and
  the submitter is not called.
\<close>

theorem submit_stops_at_isEmpty:
  "validate (example_form\<lparr> validate := required_validator \<rparr>) example_schema (Obj [(''name'', Str ''Bob'')])
     = Resolved (Obj [(''name'', Str ''required'')]) \<and>
   errorsS typed_state = Str ''stale'' \<and>
   Form_submit Unbound (example_form\<lparr> validate := required_validator \<rparr>) typed_state =
     \<lparr> final_state = \<lparr> valuesS = Obj [(''name'', Str ''Bob'')], errorsS = Null \<rparr>,
       trace = [SetState_errors Null, Call_validate example_schema (Obj [(''name'', Str ''Bob'')])],
       returned = Rejected reference_error \<rparr> \<and>
   validate example_form example_schema (Obj [(''name'', Str ''Bob'')]) = Resolved (Obj []) \<and>
   Form_submit Unbound example_form typed_state =
     \<lparr> final_state = \<lparr> valuesS = Obj [(''name'', Str ''Bob'')], errorsS = Null \<rparr>,
       trace = [SetState_errors Null, Call_validate example_schema (Obj [(''name'', Str ''Bob'')])],
       returned = Rejected reference_error \<rparr> \<and>
   filter is_submit_call (trace (Form_submit Unbound example_form typed_state)) = []"
  by (simp add: Form_submit_def Let_def form_example_simps)


subsection \<open>What a Form hands to its Fields\<close>

text \<open>
  Claim C9. Whatever the state of the form, and so after every validation and submit
  outcome, the \<open>Fields\<close> instance that the form renders has no \<open>error\<close> prop, and the
  field-level error of every field path it resolves is \<open>undefined\<close>. The element does
  carry the stored field errors, when there are any, but under the name \<open>errors\<close>, which
  \<open>Fields\<close> never reads.
\<close>

theorem form_field_error_undefined:
  "error (Form_render_fields F st) = Undefined
   \<and> (getFieldData (Form_render_fields F st) rawPath = Inr fd \<longrightarrow> fieldError fd = Undefined)
   \<and> js_prop (Obj (renderFields_element (schemaF F) (Form_options F st) (renderF F))) ''error'' = Undefined
   \<and> js_prop (Obj (renderFields_element (schemaF F) (Form_options F st) (renderF F))) ''errors''
       = (let fieldErrors = js_and (errorsS st) (js_prop (errorsS st) ''fieldErrors'')
          in if truthy fieldErrors then fieldErrors else Undefined)"
proof (intro conjI impI)
  show e: "error (Form_render_fields F st) = Undefined"
    by (simp add: Form_render_fields_eq)
  show "fieldError fd = Undefined" if "getFieldData (Form_render_fields F st) rawPath = Inr fd"
    using that by (auto simp: getFieldData_def Let_def e get_at_Undefined split: prod.splits if_splits)
  show "js_prop (Obj (renderFields_element (schemaF F) (Form_options F st) (renderF F))) ''error'' = Undefined"
    by (rule element_error)
  show "js_prop (Obj (renderFields_element (schemaF F) (Form_options F st) (renderF F))) ''errors''
       = (let fieldErrors = js_and (errorsS st) (js_prop (errorsS st) ''fieldErrors'')
          in if truthy fieldErrors then fieldErrors else Undefined)"
    by (simp only: element_errors) (simp add: Let_def js_and_def)
qed

theorem form_field_error_undefined_witness:
  "errorsS rejected_state = Obj [(''fieldErrors'', Obj [(''name'', Str ''required'')])] \<and>
   js_prop (Obj (renderFields_element (schemaF example_form) (Form_options example_form rejected_state)
                   (renderF example_form))) ''errors'' = Obj [(''name'', Str ''required'')] \<and>
   (\<exists>fd. getFieldData (Form_render_fields example_form rejected_state) (PString ''name'') = Inr fd \<and>
         fieldSchema fd = name_definition \<and> fieldError fd = Undefined)"
proof -
  let ?fd = "\<lparr> fieldPath = Some [''name''],
           fieldPathString = Str ''name'',
           fieldSchema = name_definition,
           fieldError = Undefined,
           fieldType = Obj [(''fieldComponent'', TextInput)],
           valueD = Str ''Ann'',
           onChangeD = Fun ''changeField'' [Arr [Str ''name''], Str ''name''] \<rparr>"
  note t = form_field_error_undefined [of example_form rejected_state "PString ''name''" ?fd]
  have "js_prop (Obj (renderFields_element (schemaF example_form) (Form_options example_form rejected_state)
                   (renderF example_form))) ''errors'' = Obj [(''name'', Str ''required'')]"
    using t by (simp add: rejected_state_errors js_and_def Let_def)
  moreover have "fieldError ?fd = Undefined"
    using t Form_fields_name by blast
  ultimately show ?thesis
    using rejected_state_errors Form_fields_name by simp
qed

subsection \<open>Changing a field\<close>

text \<open>
  When the instance has a listener, \<open>changeField\<close> calls it with the new tree, the path
  string, the new value and the path, in this order; without a listener nothing is
  called. A path of one key assigns into the fresh copy only, so no object that was in
  the store before is touched.
\<close>

lemma changeField_listener_arguments:
  "(\<exists>newTree. snd (changeField h propsValue True path fieldValue pathString)
       = Some (newTree, pathString, fieldValue, path))
   \<and> snd (changeField h propsValue False path fieldValue pathString) = None"
  by (simp add: changeField_def Let_def split: prod.splits option.splits)

lemma changeField_one_key:
  assumes "changeField h propsValue hasListener (Some [k]) fieldValue pathString = (h', call)"
  shows "take (length h) h' = h"
  using assms
  by (auto simp: changeField_def Object_assign_empty_def h_alloc_def lodash_set_def h_assign_def
      Let_def split: if_splits)

text \<open>
  Claim C4 says that the change-callback sets the leaf immutably: the previous value tree
  is not mutated. \<open>changeField\<close> copies only the top object and then calls the mutating
  \<open>_.set\<close> on the copy, so for a path of two or more keys the assignment lands in an
  object that the copy shares with the previous tree. In the example, the callback bound
  for \<open>address.city\<close> is invoked with \<open>Bergen\<close>: the new tree is created at address 2
  and passed to the listener with the path string, the new value and the path; the
  \<open>address\<close> object at address 1 is the one both trees refer to, and it is the one
  assigned to. Read through the previous tree, at address 0, the city was \<open>Oslo\<close> before
  the call and is \<open>Bergen\<close> after it.
\<close>

theorem changeField_mutates_previous_tree:
  "getFieldData example_props (PString ''address.city'') = Inr city_data \<and>
   bound_onChange address_heap (HRef 0) True city_data (HStr ''Bergen'')
     = ([(False, [(''name'', HStr ''Ann''), (''address'', HRef 1)]),
         (False, [(''city'', HStr ''Bergen'')]),
         (False, [(''name'', HStr ''Ann''), (''address'', HRef 1)])],
        Some (HRef 2, Str ''address.city'', HStr ''Bergen'', Some [''address'', ''city''])) \<and>
   h_get address_heap (HRef 0) [''address'', ''city''] = HStr ''Oslo'' \<and>
   h_get (fst (bound_onChange address_heap (HRef 0) True city_data (HStr ''Bergen'')))
         (HRef 0) [''address'', ''city''] = HStr ''Bergen''"
proof -
  have "getFieldData example_props (PString ''address.city'') = Inr city_data"
    by (simp add: example_simps city_data_def)
  moreover have "bound_onChange address_heap (HRef 0) True city_data (HStr ''Bergen'')
     = ([(False, [(''name'', HStr ''Ann''), (''address'', HRef 1)]),
         (False, [(''city'', HStr ''Bergen'')]),
         (False, [(''name'', HStr ''Ann''), (''address'', HRef 1)])],
        Some (HRef 2, Str ''address.city'', HStr ''Bergen'', Some [''address'', ''city'']))"
    by (simp add: bound_onChange_def city_data_def changeField_def Object_assign_empty_def
        h_alloc_def lodash_set_def h_assign_def address_heap_def cell_at_def Let_def)
  moreover have "h_get address_heap (HRef 0) [''address'', ''city''] = HStr ''Oslo''"
    by (simp add: h_get_def address_heap_def cell_at_def)
  moreover have "h_get [(False, [(''name'', HStr ''Ann''), (''address'', HRef 1)]),
         (False, [(''city'', HStr ''Bergen'')]),
         (False, [(''name'', HStr ''Ann''), (''address'', HRef 1)])]
         (HRef 0) [''address'', ''city''] = HStr ''Bergen''"
    by (simp add: h_get_def cell_at_def)
  ultimately show ?thesis
    by simp
qed

subsection \<open>Change events in a form\<close>

text \<open>
  An event whose path has one key leaves every object of the store as it was, and the
  state then holds the new tree, a new object.
\<close>

lemma form_change_one_key:
  assumes "fieldPath fd = Some [k]"
  shows "take (length h) (fst (form_change propsValue (h, st) (fd, fieldValue))) = h
         \<and> valuesS (snd (form_change propsValue (h, st) (fd, fieldValue))) = HRef (length h)"
  using assms
  by (auto simp: form_change_def bound_onChange_def changeField_def Object_assign_empty_def
      h_alloc_def lodash_set_def h_assign_def Form_onChange_def Let_def split: if_splits)

text \<open>
  Claim C10 says that what \<open>Fields\<close> resolves and renders in a form does not depend on
  earlier change events, because the form passes its \<open>value\<close> prop down and keeps the
  changed tree in its state only. The form does pass the prop, for every state, and
  \<open>submit\<close> does hand the stored tree to the validator. But the prop is passed by
  reference, and \<open>changeField\<close> assigns into the objects below it. In the example the
  form's value prop is the tree at address 0 and its state holds the empty object at
  address 2. The change-callback bound for \<open>address.city\<close> is invoked with \<open>Bergen\<close>: the
  state then holds the new tree at address 3, and the value prop, still the object at
  address 0, has \<open>Bergen\<close> as its city where it had \<open>Oslo\<close> before the event. That is what
  \<open>Fields\<close> resolves for \<open>address.city\<close> from then on.
\<close>

theorem form_change_reaches_value_prop:
  "getFieldData example_props (PString ''address.city'') = Inr city_data \<and>
   form_change (HRef 0) (form_heap, \<lparr> valuesS = HRef 2, errorsS = Null \<rparr>) (city_data, HStr ''Bergen'')
     = ([(False, [(''name'', HStr ''Ann''), (''address'', HRef 1)]),
         (False, [(''city'', HStr ''Bergen'')]),
         (False, []),
         (False, [(''name'', HStr ''Ann''), (''address'', HRef 1)])],
        \<lparr> valuesS = HRef 3, errorsS = Null \<rparr>) \<and>
   h_get form_heap (HRef 0) [''address'', ''city''] = HStr ''Oslo'' \<and>
   h_get (fst (form_change (HRef 0) (form_heap, \<lparr> valuesS = HRef 2, errorsS = Null \<rparr>)
                 (city_data, HStr ''Bergen'')))
         (HRef 0) [''address'', ''city''] = HStr ''Bergen''"
proof -
  have "getFieldData example_props (PString ''address.city'') = Inr city_data"
    by (simp add: example_simps city_data_def)
  moreover have c: "form_change (HRef 0) (form_heap, \<lparr> valuesS = HRef 2, errorsS = Null \<rparr>) (city_data, HStr ''Bergen'')
     = ([(False, [(''name'', HStr ''Ann''), (''address'', HRef 1)]),
         (False, [(''city'', HStr ''Bergen'')]),
         (False, []),
         (False, [(''name'', HStr ''Ann''), (''address'', HRef 1)])],
        \<lparr> valuesS = HRef 3, errorsS = Null \<rparr>)"
    by (simp add: form_change_def bound_onChange_def city_data_def changeField_def
        Object_assign_empty_def h_alloc_def lodash_set_def h_assign_def form_heap_def
        address_heap_def cell_at_def Form_onChange_def Let_def)
  moreover have "h_get form_heap (HRef 0) [''address'', ''city''] = HStr ''Oslo''"
    by (simp add: h_get_def form_heap_def address_heap_def cell_at_def)
  moreover have "h_get (fst (form_change (HRef 0) (form_heap, \<lparr> valuesS = HRef 2, errorsS = Null \<rparr>)
                 (city_data, HStr ''Bergen'')))
         (HRef 0) [''address'', ''city''] = HStr ''Bergen''"
    unfolding c by (simp add: h_get_def cell_at_def)
  ultimately show ?thesis
    by (intro conjI)
qed

end
